theory Spec2Isabelle
  imports Complex_Main
begin

section \<open>SimpleCV: single-holdout validation (mlpack, core/cv/simple\_cv\_impl.hpp)\<close>

text \<open>
  A shallow embedding of the class template \<open>SimpleCV\<close>. The object is a record of its
  data members and every member function takes the object and returns the updated one. A
  C++ exception is a value of type \<open>exn\<close> on the left of a sum. A matrix is the list of its
  columns (one column per data point), a row vector the list of its elements, so that
  \<open>n_cols\<close> and \<open>n_elem\<close> are the length. The \<open>double\<close> parameter \<open>validationSize\<close> is a
  value of the type \<open>double\<close> below: a finite binary64 value, an infinity or NaN, with
  the arithmetic of IEEE 754 (every result rounded to the nearest value, ties to even). A
  \<open>size_t\<close> is a natural number, with the unsigned wrap-around of the subtraction
  written out.
\<close>

subsection \<open>Exceptions\<close>

text \<open>
  The first three are exceptions of C++. The last three are outcomes the model makes
  visible: the failure of the consistency check of the base class, and the two places where
  C++ leaves the behaviour undefined and the model stops (a floating-point value converted
  to a \<open>size_t\<close> that cannot hold it, and a slice outside its sequence).
\<close>

datatype exn =
    invalid_argument string
  | logic_error string
  | other_exception string
  | inconsistent_data
  | undefined_conversion
  | subset_out_of_bounds

subsection \<open>Double precision\<close>

text \<open>
  A \<open>double\<close> by its value. \<open>Finite x\<close> stands for the binary64 value \<open>x\<close>; the two
  zeros are one value, since nothing in this code tells them apart (there is no division
  and no test of the sign bit, and \<open>-0.0 < 0.0\<close> is false as \<open>0.0 < 0.0\<close> is).
\<close>

datatype double = Finite real | PlusInfinity | MinusInfinity | NaN

text \<open>The position of the leading bit of a natural number.\<close>

fun ilog2 :: "nat \<Rightarrow> nat" where
  "ilog2 n = (if n < 2 then 0 else Suc (ilog2 (n div 2)))"

declare ilog2.simps [simp del]

text \<open>The exponent \<open>e\<close> of a positive real \<open>x\<close>: \<open>2 ^ e \<le> x < 2 ^ (e + 1)\<close>.\<close>

definition binade :: "real \<Rightarrow> int" where
  "binade x =
     (if 1 \<le> x then int (ilog2 (nat \<lfloor>x\<rfloor>))
      else - int (Suc (ilog2 (nat \<lceil>1 / x\<rceil> - 1))))"

definition pow2 :: "int \<Rightarrow> real" where
  "pow2 e = (if 0 \<le> e then 2 ^ nat e else 1 / 2 ^ nat (- e))"

text \<open>The nearest integer, a tie going to the even one.\<close>

definition round_half_even :: "real \<Rightarrow> int" where
  "round_half_even y =
     (let f = \<lfloor>y\<rfloor> in
      if y - of_int f < 1 / 2 then f
      else if 1 / 2 < y - of_int f then f + 1
      else if even f then f else f + 1)"

text \<open>
  The rounding of IEEE 754 binary64, to nearest and ties to even: 53 significant bits, the
  least exponent \<open>-1022\<close> (below it the spacing stays \<open>2 ^ -1074\<close>), and an infinity when
  the rounded magnitude reaches \<open>2 ^ 1024\<close>. Every operation on \<open>double\<close> rounds its exact
  result in this way (the arithmetic of a platform that evaluates \<open>double\<close> expressions in
  \<open>double\<close>), and this is also how the compiler reads a decimal literal such as \<open>0.3\<close>.
\<close>

definition to_double :: "real \<Rightarrow> double" where
  "to_double x =
     (if x = 0 then Finite 0
      else
        let e = max (binade \<bar>x\<bar>) (- 1022);
            ulp = pow2 (e - 52);
            r = of_int (round_half_even (x / ulp)) * ulp
        in if 2 ^ 1024 \<le> \<bar>r\<bar> then (if 0 < x then PlusInfinity else MinusInfinity)
           else Finite r)"

text \<open>The comparison \<open><\<close>: false as soon as one side is NaN.\<close>

fun d_less :: "double \<Rightarrow> double \<Rightarrow> bool" where
  "d_less (Finite x) (Finite y) = (x < y)"
| "d_less (Finite x) PlusInfinity = True"
| "d_less MinusInfinity (Finite y) = True"
| "d_less MinusInfinity PlusInfinity = True"
| "d_less _ _ = False"

fun d_sub :: "double \<Rightarrow> double \<Rightarrow> double" where
  "d_sub NaN _ = NaN"
| "d_sub _ NaN = NaN"
| "d_sub (Finite x) (Finite y) = to_double (x - y)"
| "d_sub (Finite x) PlusInfinity = MinusInfinity"
| "d_sub (Finite x) MinusInfinity = PlusInfinity"
| "d_sub PlusInfinity PlusInfinity = NaN"
| "d_sub PlusInfinity _ = PlusInfinity"
| "d_sub MinusInfinity MinusInfinity = NaN"
| "d_sub MinusInfinity _ = MinusInfinity"

fun d_mul :: "double \<Rightarrow> double \<Rightarrow> double" where
  "d_mul NaN _ = NaN"
| "d_mul _ NaN = NaN"
| "d_mul (Finite x) (Finite y) = to_double (x * y)"
| "d_mul (Finite x) PlusInfinity =
     (if x = 0 then NaN else if 0 < x then PlusInfinity else MinusInfinity)"
| "d_mul (Finite x) MinusInfinity =
     (if x = 0 then NaN else if 0 < x then MinusInfinity else PlusInfinity)"
| "d_mul PlusInfinity (Finite y) =
     (if y = 0 then NaN else if 0 < y then PlusInfinity else MinusInfinity)"
| "d_mul MinusInfinity (Finite y) =
     (if y = 0 then NaN else if 0 < y then MinusInfinity else PlusInfinity)"
| "d_mul PlusInfinity PlusInfinity = PlusInfinity"
| "d_mul PlusInfinity MinusInfinity = MinusInfinity"
| "d_mul MinusInfinity PlusInfinity = MinusInfinity"
| "d_mul MinusInfinity MinusInfinity = PlusInfinity"

subsection \<open>Arithmetic of the standard library\<close>

text \<open>\<open>round\<close> of \<open><cmath>\<close>: the nearest integer, halfway cases away from zero.\<close>

definition c_round :: "real \<Rightarrow> int" where
  "c_round x = (if 0 \<le> x then \<lfloor>x + 1 / 2\<rfloor> else \<lceil>x - 1 / 2\<rceil>)"

text \<open>
  On a \<open>double\<close> the result is again a \<open>double\<close> (an integer is a binary64 value
  whenever a binary64 value rounds to it); infinities and NaN are returned as they are.
\<close>

fun d_round :: "double \<Rightarrow> double" where
  "d_round (Finite x) = Finite (of_int (c_round x))"
| "d_round d = d"

text \<open>
  The conversion of a \<open>size_t\<close> to \<open>double\<close> rounds (above \<open>2 ^ 53\<close> not every count is
  a binary64 value). The conversion of a \<open>double\<close> to \<open>size_t\<close> drops the fraction; its
  behaviour is undefined when the truncated value is no \<open>size_t\<close>, which includes the
  infinities and NaN: there the model has no result.
\<close>

definition size_t_to_double :: "nat \<Rightarrow> double" where
  "size_t_to_double n = to_double (real n)"

fun double_to_size_t :: "double \<Rightarrow> nat option" where
  "double_to_size_t (Finite x) =
     (if - 1 < x \<and> x < 2 ^ 64 then Some (nat \<lfloor>x\<rfloor>) else None)"
| "double_to_size_t d = None"

text \<open>Subtraction of two \<open>size_t\<close> values (64 bits): a negative difference wraps around.\<close>

definition size_t_sub :: "nat \<Rightarrow> nat \<Rightarrow> nat" where
  "size_t_sub a b = (if b \<le> a then a - b else 2 ^ 64 - (b - a))"

abbreviation n_cols :: "'a list \<Rightarrow> nat" where
  "n_cols m \<equiv> length m"

abbreviation n_elem :: "'a list \<Rightarrow> nat" where
  "n_elem r \<equiv> length r"

subsection \<open>The helpers inherited from CVBase\<close>

text \<open>
  Modelled from the spec: \<open>CVBase::GetSubset\<close> is declared in the base class, which is not
  part of the sources at hand. The spec has the partitions materialised "by copying/viewing
  contiguous ranges", with both ends of the range included (Training = points
  \<open>[0, k-1]\<close>). A range that does not lie inside the sequence is no slice of it: the model
  returns \<open>subset_out_of_bounds\<close> there, so that an index out of range is a visible outcome.
\<close>

definition GetSubset :: "'a list \<Rightarrow> nat \<Rightarrow> nat \<Rightarrow> exn + 'a list" where
  "GetSubset m firstCol lastCol =
     (if firstCol \<le> lastCol \<and> lastCol < n_cols m
      then Inr (take (lastCol - firstCol + 1) (drop firstCol m))
      else Inl subset_out_of_bounds)"

text \<open>
  Modelled from the spec: \<open>CVBase::AssertDataConsistency\<close> (both overloads) is declared in
  the base class, which is not part of the sources at hand. The spec describes it as the
  collaborator that "validates that feature/target/weight counts match before this core
  runs"; it does not name the kind of error, which is \<open>inconsistent_data\<close> here.
\<close>

definition AssertDataConsistency :: "'x list \<Rightarrow> 'y list \<Rightarrow> exn + unit" where
  "AssertDataConsistency X Y =
     (if n_cols X \<noteq> n_elem Y then Inl inconsistent_data else Inr ())"

text \<open>
  Modelled from the spec: the overload of \<open>CVBase::AssertDataConsistency\<close> with weights,
  missing like the first; after the targets it checks that "weight count equals N".
\<close>

definition AssertDataConsistency_weights ::
  "'x list \<Rightarrow> 'y list \<Rightarrow> 'w list \<Rightarrow> exn + unit" where
  "AssertDataConsistency_weights X Y W =
     (case AssertDataConsistency X Y of
        Inl e \<Rightarrow> Inl e
      | Inr _ \<Rightarrow> if n_cols X \<noteq> n_elem W then Inl inconsistent_data else Inr ())"

subsection \<open>The object\<close>

record ('x, 'y, 'w, 'm) simple_cv =
  xs :: "'x list"
  ys :: "'y list"
  weights :: "'w list"
  trainingXs :: "'x list"
  trainingYs :: "'y list"
  validationXs :: "'x list"
  validationYs :: "'y list"
  trainingWeights :: "'w list"
  modelPtr :: "'m option"

text \<open>
  The data members as their default constructors leave them, before the body of the
  constructor runs: empty matrices and vectors, and a null \<open>unique_ptr\<close>.
\<close>

definition default_members :: "('x, 'y, 'w, 'm) simple_cv" where
  "default_members =
     \<lparr>xs = [], ys = [], weights = [], trainingXs = [], trainingYs = [],
      validationXs = [], validationYs = [], trainingWeights = [], modelPtr = None\<rparr>"

text \<open>
  The tuple \<open>Base::ExtractDataArgs(args...)\<close> hands to \<open>Init\<close>: two components for a dataset
  without weights, three for one with weights.
\<close>

datatype ('x, 'y, 'w) DataArgs =
    DataArgs2 "'x list" "'y list"
  | DataArgs3 "'x list" "'y list" "'w list"

subsection \<open>The holdout splitter\<close>

text \<open>
  In line 159 the count of points is converted to \<open>double\<close>, the difference and the
  product are computed in \<open>double\<close>, and the rounded product is converted to \<open>size_t\<close>.
  Both comparisons of the first check are false for NaN, which therefore reaches line 159.
\<close>

definition CalculateAndAssertNumberOfTrainingPoints ::
  "double \<Rightarrow> ('x, 'y, 'w, 'm) simple_cv \<Rightarrow> exn + nat" where
  "CalculateAndAssertNumberOfTrainingPoints validationSize s =
     (if d_less validationSize (Finite 0) \<or> d_less (Finite 1) validationSize
      then Inl (invalid_argument
        ''SimpleCV: the validationSize parameter should be more than 0 and less than 1'')
      else if n_cols (xs s) < 2
      then Inl (invalid_argument ''SimpleCV: 2 or more data points are expected'')
      else
        case double_to_size_t
               (d_round (d_mul (size_t_to_double (n_cols (xs s)))
                  (d_sub (Finite 1) validationSize))) of
          None \<Rightarrow> Inl undefined_conversion
        | Some trainingPoints \<Rightarrow>
            if trainingPoints = 0 \<or> trainingPoints = n_cols (xs s)
            then Inl (invalid_argument
              ''SimpleCV: the validationSize parameter is either too small or too big'')
            else Inr trainingPoints)"

definition InitTrainingAndValidationSets ::
  "double \<Rightarrow> ('x, 'y, 'w, 'm) simple_cv \<Rightarrow> exn + ('x, 'y, 'w, 'm) simple_cv" where
  "InitTrainingAndValidationSets validationSize s =
     (case CalculateAndAssertNumberOfTrainingPoints validationSize s of
        Inl e \<Rightarrow> Inl e
      | Inr numberOfTrainingPoints \<Rightarrow>
     (case GetSubset (xs s) 0 (size_t_sub numberOfTrainingPoints 1) of
        Inl e \<Rightarrow> Inl e
      | Inr txs \<Rightarrow>
     (case GetSubset (ys s) 0 (size_t_sub numberOfTrainingPoints 1) of
        Inl e \<Rightarrow> Inl e
      | Inr tys \<Rightarrow>
     (case GetSubset (xs s) numberOfTrainingPoints (size_t_sub (n_cols (xs s)) 1) of
        Inl e \<Rightarrow> Inl e
      | Inr vxs \<Rightarrow>
     (case GetSubset (ys s) numberOfTrainingPoints (size_t_sub (n_cols (xs s)) 1) of
        Inl e \<Rightarrow> Inl e
      | Inr vys \<Rightarrow>
          Inr (s\<lparr>trainingXs := txs, trainingYs := tys,
                 validationXs := vxs, validationYs := vys\<rparr>))))))"

text \<open>The two overloads of \<open>Init\<close>, selected by the size of the tuple.\<close>

fun Init ::
  "double \<Rightarrow> ('x, 'y, 'w) DataArgs \<Rightarrow> ('x, 'y, 'w, 'm) simple_cv
     \<Rightarrow> exn + ('x, 'y, 'w, 'm) simple_cv" where
  "Init validationSize (DataArgs2 X Y) s =
     (let s1 = s\<lparr>xs := X, ys := Y\<rparr> in
      case AssertDataConsistency (xs s1) (ys s1) of
        Inl e \<Rightarrow> Inl e
      | Inr _ \<Rightarrow> InitTrainingAndValidationSets validationSize s1)"
| "Init validationSize (DataArgs3 X Y W) s =
     (let s1 = s\<lparr>xs := X, ys := Y, weights := W\<rparr> in
      case AssertDataConsistency_weights (xs s1) (ys s1) (weights s1) of
        Inl e \<Rightarrow> Inl e
      | Inr _ \<Rightarrow>
     (case InitTrainingAndValidationSets validationSize s1 of
        Inl e \<Rightarrow> Inl e
      | Inr s2 \<Rightarrow>
     (case GetSubset (weights s2) 0 (size_t_sub (n_cols (trainingXs s2)) 1) of
        Inl e \<Rightarrow> Inl e
      | Inr tws \<Rightarrow> Inr (s2\<lparr>trainingWeights := tws\<rparr>))))"

text \<open>The constructor: the members are default-initialised, then \<open>Init\<close> runs.\<close>

definition SimpleCV ::
  "double \<Rightarrow> ('x, 'y, 'w) DataArgs \<Rightarrow> exn + ('x, 'y, 'w, 'm) simple_cv" where
  "SimpleCV validationSize args = Init validationSize args default_members"

subsection \<open>The evaluator\<close>

text \<open>
  The model type \<open>MLAlgorithm\<close> as the evaluator sees it. The member template
  \<open>CVBase::Train\<close> constructs a new model from the data and the extra arguments and
  returns the pointer that owns it; it is declared in the base class, which is not part of
  the sources at hand, so its two forms (without and with weights) are parameters here,
  as is the static capability \<open>MIE::SupportsWeights\<close> of the model type. Either form may
  throw. \<open>Metric::Evaluate\<close> is a parameter as well.
\<close>

record ('x, 'y, 'w, 'a, 'm) MLAlgorithm =
  SupportsWeights :: bool
  Train :: "'x list \<Rightarrow> 'y list \<Rightarrow> 'a \<Rightarrow> exn + 'm"
  TrainWeighted :: "'x list \<Rightarrow> 'y list \<Rightarrow> 'w list \<Rightarrow> 'a \<Rightarrow> exn + 'm"

type_synonym ('x, 'y, 'm) Metric = "'m \<Rightarrow> 'x list \<Rightarrow> 'y list \<Rightarrow> exn + real"

text \<open>
  \<open>TrainAndEvaluate\<close>, the overload for a model type without weighted learning. The
  assignment to \<open>modelPtr\<close> happens only when \<open>Train\<close> has returned; an exception of the
  metric leaves the object with the new model.
\<close>

definition TrainAndEvaluate ::
  "('x, 'y, 'w, 'a, 'm) MLAlgorithm \<Rightarrow> ('x, 'y, 'm) Metric \<Rightarrow> 'a
     \<Rightarrow> ('x, 'y, 'w, 'm) simple_cv \<Rightarrow> (exn + real) \<times> ('x, 'y, 'w, 'm) simple_cv" where
  "TrainAndEvaluate alg metric args s =
     (case Train alg (trainingXs s) (trainingYs s) args of
        Inl e \<Rightarrow> (Inl e, s)
      | Inr m \<Rightarrow>
          (let s' = s\<lparr>modelPtr := Some m\<rparr>
           in (metric m (validationXs s') (validationYs s'), s')))"

text \<open>\<open>TrainAndEvaluate\<close>, the overload for a model type with weighted learning.\<close>

definition TrainAndEvaluate_weights ::
  "('x, 'y, 'w, 'a, 'm) MLAlgorithm \<Rightarrow> ('x, 'y, 'm) Metric \<Rightarrow> 'a
     \<Rightarrow> ('x, 'y, 'w, 'm) simple_cv \<Rightarrow> (exn + real) \<times> ('x, 'y, 'w, 'm) simple_cv" where
  "TrainAndEvaluate_weights alg metric args s =
     (case (if n_elem (trainingWeights s) > 0
            then TrainWeighted alg (trainingXs s) (trainingYs s) (trainingWeights s) args
            else Train alg (trainingXs s) (trainingYs s) args) of
        Inl e \<Rightarrow> (Inl e, s)
      | Inr m \<Rightarrow>
          (let s' = s\<lparr>modelPtr := Some m\<rparr>
           in (metric m (validationXs s') (validationYs s'), s')))"

text \<open>
  Modelled from the spec: the declarations that enable one overload of \<open>TrainAndEvaluate\<close>
  or the other are in the class definition, which is not part of the sources at hand. The
  spec (Design notes) has the source select "one of two code paths based on whether the
  model's training capability accepts a weights argument, resolved via static
  introspection".
\<close>

definition Evaluate ::
  "('x, 'y, 'w, 'a, 'm) MLAlgorithm \<Rightarrow> ('x, 'y, 'm) Metric \<Rightarrow> 'a
     \<Rightarrow> ('x, 'y, 'w, 'm) simple_cv \<Rightarrow> (exn + real) \<times> ('x, 'y, 'w, 'm) simple_cv" where
  "Evaluate alg metric args s =
     (if SupportsWeights alg then TrainAndEvaluate_weights alg metric args s
      else TrainAndEvaluate alg metric args s)"

definition Model :: "('x, 'y, 'w, 'm) simple_cv \<Rightarrow> exn + 'm" where
  "Model s =
     (case modelPtr s of
        None \<Rightarrow> Inl (logic_error
          ''SimpleCV::Model(): attempted to access an uninitialized model'')
      | Some m \<Rightarrow> Inr m)"

text \<open>
  A history of \<open>Evaluate\<close> calls on one object. Every call comes with the behaviour of the
  training routine and of the metric at that call, which need not be the same twice.
\<close>

type_synonym ('x, 'y, 'w, 'a, 'm) call =
  "('x, 'y, 'w, 'a, 'm) MLAlgorithm \<times> ('x, 'y, 'm) Metric \<times> 'a"

fun Evaluates ::
  "('x, 'y, 'w, 'a, 'm) call list \<Rightarrow> ('x, 'y, 'w, 'm) simple_cv
     \<Rightarrow> ('x, 'y, 'w, 'm) simple_cv" where
  "Evaluates [] s = s"
| "Evaluates ((alg, metric, args) # cs) s =
     Evaluates cs (snd (Evaluate alg metric args s))"

subsection \<open>Notions of the specification\<close>

text \<open>
  The training point count \<open>k = round(N * (1 - v))\<close> of the spec, computed in \<open>double\<close>
  as the code computes it; there is none where the conversion to \<open>size_t\<close> is undefined.
\<close>

definition training_count :: "nat \<Rightarrow> double \<Rightarrow> nat option" where
  "training_count N v =
     double_to_size_t (d_round (d_mul (size_t_to_double N) (d_sub (Finite 1) v)))"

text \<open>The dataset behind the constructor's arguments, and its invariant.\<close>

fun points :: "('x, 'y, 'w) DataArgs \<Rightarrow> 'x list" where
  "points (DataArgs2 X Y) = X"
| "points (DataArgs3 X Y W) = X"

fun targets :: "('x, 'y, 'w) DataArgs \<Rightarrow> 'y list" where
  "targets (DataArgs2 X Y) = Y"
| "targets (DataArgs3 X Y W) = Y"

fun point_weights :: "('x, 'y, 'w) DataArgs \<Rightarrow> 'w list" where
  "point_weights (DataArgs2 X Y) = []"
| "point_weights (DataArgs3 X Y W) = W"

fun with_weights :: "('x, 'y, 'w) DataArgs \<Rightarrow> bool" where
  "with_weights (DataArgs2 X Y) = False"
| "with_weights (DataArgs3 X Y W) = True"

fun consistent :: "('x, 'y, 'w) DataArgs \<Rightarrow> bool" where
  "consistent (DataArgs2 X Y) = (length Y = length X)"
| "consistent (DataArgs3 X Y W) = (length Y = length X \<and> length W = length X)"

text \<open>
  The split of the spec at the boundary \<open>k\<close>: Training is the points \<open>[0, k-1]\<close>, Validation
  the points \<open>[k, N-1]\<close>, Training-Weights the weights \<open>[0, k-1]\<close>, and no model yet.
\<close>

definition holdout :: "('x, 'y, 'w) DataArgs \<Rightarrow> nat \<Rightarrow> ('x, 'y, 'w, 'm) simple_cv" where
  "holdout args k =
     \<lparr>xs = points args, ys = targets args, weights = point_weights args,
      trainingXs = take k (points args), trainingYs = take k (targets args),
      validationXs = drop k (points args), validationYs = drop k (targets args),
      trainingWeights = take k (point_weights args), modelPtr = None\<rparr>"

text \<open>The training invocation an \<open>Evaluate\<close> call makes on the object as it stands.\<close>

definition training_call ::
  "('x, 'y, 'w, 'a, 'm) MLAlgorithm \<Rightarrow> 'a \<Rightarrow> ('x, 'y, 'w, 'm) simple_cv \<Rightarrow> exn + 'm" where
  "training_call alg args s =
     (if SupportsWeights alg \<and> trainingWeights s \<noteq> []
      then TrainWeighted alg (trainingXs s) (trainingYs s) (trainingWeights s) args
      else Train alg (trainingXs s) (trainingYs s) args)"

subsection \<open>A concrete scenario\<close>

text \<open>
  A model that records what it was trained on. Training fails for the extra argument 0,
  the metric fails on a model trained with the extra argument 1, and the score of any
  other model is its extra argument.
\<close>

type_synonym demo_model = "nat list \<times> nat list \<times> nat list \<times> nat"

definition demo_train :: "nat list \<Rightarrow> nat list \<Rightarrow> nat \<Rightarrow> exn + demo_model" where
  "demo_train X Y a =
     (if a = 0 then Inl (other_exception ''training failed'') else Inr (X, Y, [], a))"

definition demo_train_weighted ::
  "nat list \<Rightarrow> nat list \<Rightarrow> nat list \<Rightarrow> nat \<Rightarrow> exn + demo_model" where
  "demo_train_weighted X Y W a =
     (if a = 0 then Inl (other_exception ''training failed'') else Inr (X, Y, W, a))"

definition demo_alg :: "(nat, nat, nat, nat, demo_model) MLAlgorithm" where
  "demo_alg =
     \<lparr>SupportsWeights = True, Train = demo_train, TrainWeighted = demo_train_weighted\<rparr>"

text \<open>The same training routine in a model type without weighted learning.\<close>

definition demo_alg_unweighted :: "(nat, nat, nat, nat, demo_model) MLAlgorithm" where
  "demo_alg_unweighted =
     \<lparr>SupportsWeights = False, Train = demo_train, TrainWeighted = demo_train_weighted\<rparr>"

definition demo_metric :: "(nat, nat, demo_model) Metric" where
  "demo_metric m VX VY =
     (if snd (snd (snd m)) = 1 then Inl (other_exception ''metric failed'')
      else Inr (real (snd (snd (snd m)))))"

text \<open>Four points with targets and weights, and the object built from them.\<close>

definition demo_args :: "(nat, nat, nat) DataArgs" where
  "demo_args = DataArgs3 [10, 11, 12, 13] [20, 21, 22, 23] [30, 31, 32, 33]"

definition demo_cv :: "(nat, nat, nat, demo_model) simple_cv" where
  "demo_cv =
     \<lparr>xs = [10, 11, 12, 13], ys = [20, 21, 22, 23], weights = [30, 31, 32, 33],
      trainingXs = [10, 11], trainingYs = [20, 21],
      validationXs = [12, 13], validationYs = [22, 23],
      trainingWeights = [30, 31], modelPtr = None\<rparr>"

text \<open>Ten points and two points with targets, without weights.\<close>

definition ten_points :: "(nat, nat, nat) DataArgs" where
  "ten_points =
     DataArgs2 [0, 1, 2, 3, 4, 5, 6, 7, 8, 9] [100, 101, 102, 103, 104, 105, 106, 107, 108, 109]"


section \<open>Properties\<close>

subsection \<open>Rounding and the training point count\<close>

lemmas fp_eval = to_double_def binade_def pow2_def round_half_even_def Let_def ilog2.simps
  size_t_to_double_def

lemma to_double_examples:
  "to_double (1 / 2) = Finite (1 / 2)"
  "to_double (3 / 10) = Finite (5404319552844595 / 18014398509481984)"
  "to_double (1 / 10) = Finite (3602879701896397 / 36028797018963968)"
  "to_double (9 / 10) = Finite (8106479329266893 / 9007199254740992)"
  by (simp_all add: fp_eval)

lemma d_mul_NaN [simp]: "d_mul d NaN = NaN"
  by (cases d) simp_all

lemma d_less_NaN [simp]: "\<not> d_less NaN d" "\<not> d_less d NaN"
  by (cases d; simp)+

lemma training_count_NaN: "training_count N NaN = None"
  by (simp add: training_count_def)

lemma training_count_half:
  "training_count 4 (Finite (1 / 2)) = Some 2"
  "training_count 2 (Finite (1 / 2)) = Some 1"
  "training_count 5 (Finite (1 / 2)) = Some 3"
  by (simp_all add: training_count_def fp_eval c_round_def)

lemma training_count_three_tenths: "training_count 10 (to_double (3 / 10)) = Some 7"
proof -
  have "d_sub (Finite 1) (to_double (3 / 10)) = Finite (6305039478318694 / 9007199254740992)"
    by (simp add: to_double_examples) (simp add: fp_eval)
  moreover have "d_mul (size_t_to_double 10) (Finite (6305039478318694 / 9007199254740992))
      = Finite 7"
    by (simp add: fp_eval)
  ultimately show ?thesis
    by (simp add: training_count_def c_round_def)
qed


lemma training_count_nine_tenths: "training_count 5 (to_double (9 / 10)) = Some 0"
proof -
  have "d_sub (Finite 1) (to_double (9 / 10)) = Finite (900719925474099 / 9007199254740992)"
    by (simp add: to_double_examples) (simp add: fp_eval)
  moreover have "d_mul (size_t_to_double 5) (Finite (900719925474099 / 9007199254740992))
      = Finite (4503599627370495 / 9007199254740992)"
    by (simp add: fp_eval)
  ultimately show ?thesis
    by (simp add: training_count_def c_round_def)
qed


lemma c_round_of_nat: "c_round (real n) = int n"
  by (simp add: c_round_def)



subsection \<open>The checks of the training point count\<close>

lemma Calculate_cases:
  "CalculateAndAssertNumberOfTrainingPoints v s =
     (if d_less v (Finite 0) \<or> d_less (Finite 1) v
      then Inl (invalid_argument
        ''SimpleCV: the validationSize parameter should be more than 0 and less than 1'')
      else if length (xs s) < 2
      then Inl (invalid_argument ''SimpleCV: 2 or more data points are expected'')
      else
        case training_count (length (xs s)) v of
          None \<Rightarrow> Inl undefined_conversion
        | Some k \<Rightarrow>
            if k = 0 \<or> k = length (xs s)
            then Inl (invalid_argument
              ''SimpleCV: the validationSize parameter is either too small or too big'')
            else Inr k)"
  by (simp add: CalculateAndAssertNumberOfTrainingPoints_def training_count_def)

lemma Calculate_Inr_bounds:
  assumes "CalculateAndAssertNumberOfTrainingPoints v s = Inr k"
  shows "training_count (length (xs s)) v = Some k" and "1 \<le> k" and "k \<noteq> length (xs s)"
    and "2 \<le> length (xs s)" and "\<not> d_less v (Finite 0)" and "\<not> d_less (Finite 1) v"
  using assms by (auto simp: Calculate_cases split: if_splits option.splits)

subsection \<open>Slices in range\<close>

lemma GetSubset_prefix:
  "1 \<le> k \<Longrightarrow> k \<le> length m \<Longrightarrow> GetSubset m 0 (size_t_sub k 1) = Inr (take k m)"
  by (auto simp: GetSubset_def size_t_sub_def)

lemma GetSubset_suffix:
  "k < n \<Longrightarrow> n = length m \<Longrightarrow> GetSubset m k (size_t_sub n 1) = Inr (drop k m)"
  by (auto simp: GetSubset_def size_t_sub_def)

lemma GetSubset_beyond:
  "1 \<le> k \<Longrightarrow> length m < k \<Longrightarrow> GetSubset m 0 (size_t_sub k 1) = Inl subset_out_of_bounds"
  by (auto simp: GetSubset_def size_t_sub_def)

lemma InitSets_cases:
  assumes "length (ys s) = length (xs s)"
  shows "InitTrainingAndValidationSets v s =
     (case CalculateAndAssertNumberOfTrainingPoints v s of
        Inl e \<Rightarrow> Inl e
      | Inr k \<Rightarrow>
          if k < length (xs s)
          then Inr (s\<lparr>trainingXs := take k (xs s), trainingYs := take k (ys s),
                      validationXs := drop k (xs s), validationYs := drop k (ys s)\<rparr>)
          else Inl subset_out_of_bounds)"
proof (cases "CalculateAndAssertNumberOfTrainingPoints v s")
  case (Inl e)
  then show ?thesis by (simp add: InitTrainingAndValidationSets_def)
next
  case (Inr k)
  note b = Calculate_Inr_bounds [OF Inr]
  show ?thesis
  proof (cases "k < length (xs s)")
    case True
    have k1: "1 \<le> k" and kx: "k < length (xs s)" and ky: "k < length (ys s)"
      using b True assms by simp_all
    have "GetSubset (xs s) 0 (size_t_sub k 1) = Inr (take k (xs s))"
      by (rule GetSubset_prefix [OF k1 less_imp_le [OF kx]])
    moreover have "GetSubset (ys s) 0 (size_t_sub k 1) = Inr (take k (ys s))"
      by (rule GetSubset_prefix [OF k1 less_imp_le [OF ky]])
    moreover have "GetSubset (xs s) k (size_t_sub (length (xs s)) 1) = Inr (drop k (xs s))"
      by (rule GetSubset_suffix [OF kx refl])
    moreover have "GetSubset (ys s) k (size_t_sub (length (xs s)) 1) = Inr (drop k (ys s))"
      by (rule GetSubset_suffix [OF kx assms [symmetric]])
    ultimately show ?thesis
      using Inr True by (simp add: InitTrainingAndValidationSets_def)
  next
    case False
    with b(3) have "length (xs s) < k" by simp
    with b(2) have "GetSubset (xs s) 0 (size_t_sub k 1) = Inl subset_out_of_bounds"
      by (rule GetSubset_beyond)
    then show ?thesis
      using Inr False by (simp add: InitTrainingAndValidationSets_def)
  qed
qed

lemma Init_unweighted_cases:
  assumes "length Y = length X"
  shows "Init v (DataArgs2 X Y) s =
     (case CalculateAndAssertNumberOfTrainingPoints v (s\<lparr>xs := X, ys := Y\<rparr>) of
        Inl e \<Rightarrow> Inl e
      | Inr k \<Rightarrow>
          if k < length X
          then Inr (s\<lparr>xs := X, ys := Y, trainingXs := take k X, trainingYs := take k Y,
                      validationXs := drop k X, validationYs := drop k Y\<rparr>)
          else Inl subset_out_of_bounds)"
  using assms
  by (simp add: AssertDataConsistency_def InitSets_cases split: sum.splits)

lemma Init_weighted_cases:
  assumes "length Y = length X" and "length W = length X"
  shows "Init v (DataArgs3 X Y W) s =
     (case CalculateAndAssertNumberOfTrainingPoints v (s\<lparr>xs := X, ys := Y, weights := W\<rparr>) of
        Inl e \<Rightarrow> Inl e
      | Inr k \<Rightarrow>
          if k < length X
          then Inr (s\<lparr>xs := X, ys := Y, weights := W,
                      trainingXs := take k X, trainingYs := take k Y,
                      validationXs := drop k X, validationYs := drop k Y,
                      trainingWeights := take k W\<rparr>)
          else Inl subset_out_of_bounds)"
proof (cases "CalculateAndAssertNumberOfTrainingPoints v (s\<lparr>xs := X, ys := Y, weights := W\<rparr>)")
  case (Inl e)
  then show ?thesis
    using assms
    by (simp add: AssertDataConsistency_weights_def AssertDataConsistency_def InitSets_cases)
next
  case (Inr k)
  note b = Calculate_Inr_bounds [OF Inr]
  show ?thesis
  proof (cases "k < length X")
    case True
    have k1: "1 \<le> k" and kw: "k \<le> length W"
      using b True assms by simp_all
    have "GetSubset W 0 (size_t_sub k 1) = Inr (take k W)"
      by (rule GetSubset_prefix [OF k1 kw])
    moreover have "min (length X) k = k"
      using True by simp
    ultimately show ?thesis
      using assms Inr True
      by (simp add: AssertDataConsistency_weights_def AssertDataConsistency_def InitSets_cases)
  next
    case False
    then show ?thesis
      using assms Inr
      by (simp add: AssertDataConsistency_weights_def AssertDataConsistency_def InitSets_cases)
  qed
qed

subsection \<open>The outcome of the constructor\<close>

lemma SimpleCV_cases:
  assumes "consistent args"
  shows "SimpleCV v args =
     (if d_less v (Finite 0) \<or> d_less (Finite 1) v
      then Inl (invalid_argument
        ''SimpleCV: the validationSize parameter should be more than 0 and less than 1'')
      else if length (points args) < 2
      then Inl (invalid_argument ''SimpleCV: 2 or more data points are expected'')
      else
        case training_count (length (points args)) v of
          None \<Rightarrow> Inl undefined_conversion
        | Some k \<Rightarrow>
            if k = 0 \<or> k = length (points args)
            then Inl (invalid_argument
              ''SimpleCV: the validationSize parameter is either too small or too big'')
            else if k < length (points args) then Inr (holdout args k)
            else Inl subset_out_of_bounds)"
proof (cases args)
  case (DataArgs2 X Y)
  then show ?thesis
    using assms
    by (simp add: SimpleCV_def Init_unweighted_cases Calculate_cases holdout_def
        default_members_def split: option.splits del: Init.simps)
next
  case (DataArgs3 X Y W)
  then show ?thesis
    using assms
    by (simp add: SimpleCV_def Init_weighted_cases Calculate_cases holdout_def
        default_members_def split: option.splits del: Init.simps)
qed

lemma SimpleCV_inconsistent:
  "\<not> consistent args \<Longrightarrow> SimpleCV v args = Inl inconsistent_data"
  by (cases args)
    (auto simp: SimpleCV_def AssertDataConsistency_weights_def AssertDataConsistency_def)

lemma SimpleCV_success:
  assumes "consistent args" and "\<not> d_less v (Finite 0)" and "\<not> d_less (Finite 1) v"
    and "training_count (length (points args)) v = Some k"
    and "k \<noteq> 0" and "k < length (points args)"
  shows "SimpleCV v args = Inr (holdout args k)"
  using assms by (simp add: SimpleCV_cases)

lemma SimpleCV_Inr:
  fixes s :: "('x, 'y, 'w, 'm) simple_cv"
  assumes "SimpleCV v args = Inr s"
  shows "consistent args"
    and "\<exists>k. training_count (length (points args)) v = Some k \<and> s = holdout args k \<and>
           1 \<le> k \<and> k < length (points args)"
    and "\<not> d_less v (Finite 0)" and "\<not> d_less (Finite 1) v" and "2 \<le> length (points args)"
proof -
  show c: "consistent args"
  proof (rule ccontr)
    assume "\<not> consistent args"
    then have "SimpleCV v args = (Inl inconsistent_data :: exn + ('x, 'y, 'w, 'm) simple_cv)"
      by (rule SimpleCV_inconsistent)
    with assms show False by simp
  qed
  from assms show "\<exists>k. training_count (length (points args)) v = Some k \<and> s = holdout args k \<and>
           1 \<le> k \<and> k < length (points args)"
    and "\<not> d_less v (Finite 0)" and "\<not> d_less (Finite 1) v" and "2 \<le> length (points args)"
    by (auto simp: SimpleCV_cases [OF c] split: if_splits option.splits)
qed

lemma SimpleCV_Inr_count:
  fixes s :: "('x, 'y, 'w, 'm) simple_cv"
  assumes "SimpleCV v args = Inr s" and "training_count (length (points args)) v = Some k"
  shows "s = holdout args k" and "1 \<le> k" and "k < length (points args)"
  using SimpleCV_Inr(2) [OF assms(1)] assms(2) by auto

subsection \<open>Rounding below \<open>2 ^ 53\<close>\<close>

lemma ilog2_bounds: "1 \<le> n \<Longrightarrow> 2 ^ ilog2 n \<le> n \<and> n < 2 ^ Suc (ilog2 n)"
proof (induction n rule: ilog2.induct)
  case (1 n)
  show ?case
  proof (cases "n < 2")
    case True
    with "1.prems" have "n = 1" by simp
    then show ?thesis by (simp add: ilog2.simps)
  next
    case False
    then have "1 \<le> n div 2" by simp
    with "1.IH" False have ih: "2 ^ ilog2 (n div 2) \<le> n div 2"
      "n div 2 < 2 ^ Suc (ilog2 (n div 2))"
      by simp_all
    have e: "ilog2 n = Suc (ilog2 (n div 2))"
      using False by (subst ilog2.simps) simp
    from ih(1) have "2 * 2 ^ ilog2 (n div 2) \<le> n" by simp
    moreover from ih(2) have "n < 2 * 2 ^ Suc (ilog2 (n div 2))" by simp
    ultimately show ?thesis by (simp add: e)
  qed
qed

lemma ilog2_less: "1 \<le> n \<Longrightarrow> n < 2 ^ k \<Longrightarrow> ilog2 n < k"
proof -
  assume n: "1 \<le> n" and k: "n < 2 ^ k"
  from ilog2_bounds [OF n] have "2 ^ ilog2 n \<le> n" by (rule conjunct1)
  from this k have "(2::nat) ^ ilog2 n < 2 ^ k" by (rule order.strict_trans1)
  then show ?thesis by simp
qed

lemma round_half_even_of_int [simp]: "round_half_even (of_int i) = i"
  by (simp add: round_half_even_def)

lemma round_half_even_le: "y \<le> of_int M \<Longrightarrow> round_half_even y \<le> M"
proof -
  assume y: "y \<le> of_int M"
  show ?thesis
  proof (cases "y = of_int M")
    case True
    then show ?thesis by simp
  next
    case False
    with y have "y < of_int M" by simp
    then have "\<lfloor>y\<rfloor> < M" by (simp add: floor_less_iff)
    then have "\<lfloor>y\<rfloor> + 1 \<le> M" by simp
    moreover have "round_half_even y \<le> \<lfloor>y\<rfloor> + 1"
      by (simp add: round_half_even_def Let_def)
    ultimately show ?thesis by simp
  qed
qed

lemma round_half_even_nonneg: "0 \<le> y \<Longrightarrow> 0 \<le> round_half_even y"
proof -
  assume "0 \<le> y"
  then have "0 \<le> \<lfloor>y\<rfloor>" by simp
  moreover have "\<lfloor>y\<rfloor> \<le> round_half_even y"
    by (simp add: round_half_even_def Let_def)
  ultimately show ?thesis by (rule order.trans)
qed

lemma binade_le_52:
  assumes "0 < x" and "x < 2 ^ 53"
  shows "binade x \<le> 52"
proof (cases "1 \<le> x")
  case True
  then have "1 \<le> nat \<lfloor>x\<rfloor>" by linarith
  moreover have "nat \<lfloor>x\<rfloor> < 2 ^ 53"
  proof -
    have "\<lfloor>x\<rfloor> < 2 ^ 53" using assms(2) by (simp add: floor_less_iff)
    moreover have "0 \<le> \<lfloor>x\<rfloor>" using True by simp
    ultimately show ?thesis by (simp add: nat_less_iff)
  qed
  ultimately have "ilog2 (nat \<lfloor>x\<rfloor>) < 53" by (rule ilog2_less)
  then show ?thesis using True by (simp add: binade_def)
next
  case False
  then show ?thesis by (simp add: binade_def)
qed

text \<open>Below \<open>2 ^ 53\<close> the spacing of the binary64 values divides 1.\<close>

lemma to_double_bounded:
  assumes "0 \<le> x" and "x \<le> real M" and "M \<le> 2 ^ 53"
  shows "\<exists>r. to_double x = Finite r \<and> 0 \<le> r \<and> r \<le> real M"
proof (cases "x = 0")
  case True
  then show ?thesis by (simp add: to_double_def)
next
  case False
  with assms(1) have pos: "0 < x" by simp
  show ?thesis
  proof (cases "x < 2 ^ 53")
    case True
    define e where "e = max (binade \<bar>x\<bar>) (- 1022)"
    define j where "j = nat (52 - e)"
    have "e \<le> 52"
      using binade_le_52 [OF pos True] pos by (simp add: e_def)
    then have u: "pow2 (e - 52) = 1 / 2 ^ j"
      by (cases "e = 52") (simp_all add: pow2_def j_def)
    define r where "r = real_of_int (round_half_even (x * 2 ^ j)) / 2 ^ j"
    have "x * 2 ^ j \<le> real M * 2 ^ j"
      using assms(2) by simp
    then have "x * 2 ^ j \<le> real_of_int (int M * 2 ^ j)"
      by simp
    then have "round_half_even (x * 2 ^ j) \<le> int M * 2 ^ j"
      by (rule round_half_even_le)
    then have "real_of_int (round_half_even (x * 2 ^ j)) \<le> real_of_int (int M * 2 ^ j)"
      by (simp only: of_int_le_iff)
    then have rM: "r \<le> real M"
      by (simp add: r_def divide_le_eq)
    have "0 \<le> round_half_even (x * 2 ^ j)"
      using pos by (intro round_half_even_nonneg) simp
    then have r0: "0 \<le> r"
      by (simp add: r_def)
    have "real M \<le> 2 ^ 53"
    proof -
      have "real M \<le> real (2 ^ 53)" using assms(3) by (simp only: of_nat_le_iff)
      then show ?thesis by simp
    qed
    with rM r0 have small: "\<not> 2 ^ 1024 \<le> \<bar>r\<bar>"
      by simp
    have "to_double x = Finite r"
      using False small
      by (simp add: to_double_def Let_def e_def [symmetric] u r_def)
    with r0 rM show ?thesis by blast
  next
    case False
    have "real M \<le> real (2 ^ 53)" using assms(3) by (simp only: of_nat_le_iff)
    with False assms(2) have x: "x = 2 ^ 53" and M: "real M = 2 ^ 53"
      by simp_all
    have "to_double (2 ^ 53) = Finite (2 ^ 53)"
      by (simp add: fp_eval)
    with x M show ?thesis by simp
  qed
qed

lemma size_t_to_double_exact:
  assumes "N \<le> 2 ^ 53"
  shows "size_t_to_double N = Finite (real N)"
proof (cases "N = 2 ^ 53")
  case True
  have "to_double (2 ^ 53) = Finite (2 ^ 53)"
    by (simp add: fp_eval)
  with True show ?thesis by (simp add: size_t_to_double_def)
next
  case False
  with assms have lt: "N < 2 ^ 53" by simp
  show ?thesis
  proof (cases "N = 0")
    case True
    then show ?thesis by (simp add: size_t_to_double_def to_double_def)
  next
    case False
    then have pos: "0 < real N" by simp
    have lt': "real N < 2 ^ 53"
    proof -
      have "real N < real (2 ^ 53)" using lt by (simp only: of_nat_less_iff)
      then show ?thesis by simp
    qed
    define e where "e = max (binade (real N)) (- 1022)"
    define j where "j = nat (52 - e)"
    have "e \<le> 52"
      using binade_le_52 [OF pos lt'] by (simp add: e_def)
    then have u: "pow2 (e - 52) = 1 / 2 ^ j"
      by (cases "e = 52") (simp_all add: pow2_def j_def)
    have "real N * 2 ^ j = real_of_int (int N * 2 ^ j)" by simp
    then have "round_half_even (real N * 2 ^ j) = int N * 2 ^ j"
      by (simp only: round_half_even_of_int)
    moreover have "\<not> 2 ^ 1024 \<le> real N"
      using lt' by simp
    ultimately show ?thesis
      using False
      by (simp add: size_t_to_double_def to_double_def Let_def e_def [symmetric] u)
  qed
qed

lemma checked_fraction:
  assumes "\<not> d_less v (Finite 0)" and "\<not> d_less (Finite 1) v"
  shows "v = NaN \<or> (\<exists>t. v = Finite t \<and> 0 \<le> t \<and> t \<le> 1)"
  using assms by (cases v) simp_all

lemma training_count_le:
  assumes "0 \<le> t" and "t \<le> 1" and "N \<le> 2 ^ 53"
  shows "\<exists>k. training_count N (Finite t) = Some k \<and> k \<le> N"
proof -
  have "0 \<le> 1 - t" "1 - t \<le> real (1::nat)"
    using assms(1,2) by simp_all
  from to_double_bounded [OF this] obtain a where
    a: "to_double (1 - t) = Finite a" "0 \<le> a" "a \<le> 1"
    by auto
  have "0 \<le> real N * a" "real N * a \<le> real N"
    using a(2,3) by (simp_all add: mult_left_le)
  from to_double_bounded [OF this assms(3)] obtain b where
    b: "to_double (real N * a) = Finite b" "0 \<le> b" "b \<le> real N"
    by auto
  have "c_round b = \<lfloor>b + 1 / 2\<rfloor>"
    using b(2) by (simp add: c_round_def)
  moreover have "0 \<le> \<lfloor>b + 1 / 2\<rfloor>"
    using b(2) by simp
  moreover have "\<lfloor>b + 1 / 2\<rfloor> \<le> int N"
  proof -
    have "b + 1 / 2 < real_of_int (int N + 1)" using b(3) by simp
    then have "\<lfloor>b + 1 / 2\<rfloor> < int N + 1" by (simp only: floor_less_iff)
    then show ?thesis by simp
  qed
  ultimately have c: "0 \<le> c_round b" "c_round b \<le> int N"
    by simp_all
  have "real N \<le> real (2 ^ 53)" using assms(3) by (simp only: of_nat_le_iff)
  then have "real_of_int (c_round b) < 2 ^ 64"
  proof -
    have "real_of_int (c_round b) \<le> real_of_int (int N)" using c(2) by (simp only: of_int_le_iff)
    with \<open>real N \<le> real (2 ^ 53)\<close> show ?thesis by simp
  qed
  moreover have "- 1 < real_of_int (c_round b)"
    using c(1) by linarith
  ultimately have "training_count N (Finite t) = Some (nat (c_round b))"
    by (simp add: training_count_def size_t_to_double_exact [OF assms(3)] a(1) b(1))
  moreover have "nat (c_round b) \<le> N"
    using c by simp
  ultimately show ?thesis by blast
qed

lemma training_count_at_0:
  assumes "N \<le> 2 ^ 53"
  shows "training_count N (Finite 0) = Some N"
proof -
  have e: "to_double (real N) = Finite (real N)"
    using size_t_to_double_exact [OF assms] by (simp add: size_t_to_double_def)
  have "to_double 1 = Finite 1"
    by (simp add: fp_eval)
  moreover have "real N \<le> real (2 ^ 53)" using assms by (simp only: of_nat_le_iff)
  then have "real N < 2 ^ 64" by simp
  ultimately show ?thesis
    using e by (simp add: training_count_def size_t_to_double_def c_round_of_nat)
qed

lemma training_count_at_1:
  assumes "N \<le> 2 ^ 53"
  shows "training_count N (Finite 1) = Some 0"
  by (simp add: training_count_def size_t_to_double_exact [OF assms] to_double_def c_round_def)

subsection \<open>One evaluation call\<close>

lemma Evaluate_unfold:
  "Evaluate alg metric a s =
     (case training_call alg a s of
        Inl e \<Rightarrow> (Inl e, s)
      | Inr m \<Rightarrow> (metric m (validationXs s) (validationYs s), s\<lparr>modelPtr := Some m\<rparr>))"
  by (simp add: Evaluate_def TrainAndEvaluate_def TrainAndEvaluate_weights_def
      training_call_def Let_def split: sum.splits)

lemma Evaluate_frame:
  "snd (Evaluate alg metric a s) = s\<lparr>modelPtr := modelPtr (snd (Evaluate alg metric a s))\<rparr>"
  by (simp add: Evaluate_unfold split: sum.splits)

lemma Evaluates_frame:
  "Evaluates cs s = s\<lparr>modelPtr := modelPtr (Evaluates cs s)\<rparr>"
proof (induction cs arbitrary: s)
  case Nil
  show ?case by simp
next
  case (Cons c cs)
  obtain alg metric a where c: "c = (alg, metric, a)"
    by (cases c) auto
  let ?s1 = "snd (Evaluate alg metric a s)"
  have "Evaluates cs ?s1 = ?s1\<lparr>modelPtr := modelPtr (Evaluates cs ?s1)\<rparr>"
    by (rule Cons.IH)
  also have "\<dots> = s\<lparr>modelPtr := modelPtr (Evaluates cs ?s1)\<rparr>"
    by (subst Evaluate_frame) simp
  finally show ?case
    by (simp add: c)
qed

lemma Evaluates_fields:
  "xs (Evaluates cs s) = xs s" "ys (Evaluates cs s) = ys s"
  "weights (Evaluates cs s) = weights s"
  "trainingXs (Evaluates cs s) = trainingXs s" "trainingYs (Evaluates cs s) = trainingYs s"
  "validationXs (Evaluates cs s) = validationXs s"
  "validationYs (Evaluates cs s) = validationYs s"
  "trainingWeights (Evaluates cs s) = trainingWeights s"
  by (subst Evaluates_frame, simp)+

lemma training_call_modelPtr:
  "training_call alg a (s\<lparr>modelPtr := p\<rparr>) = training_call alg a s"
  by (simp add: training_call_def)

lemma training_call_Evaluates:
  "training_call alg a (Evaluates cs s) = training_call alg a s"
  by (subst Evaluates_frame) (rule training_call_modelPtr)

lemma Evaluate_training_fails:
  "training_call alg a s = Inl e \<Longrightarrow> Evaluate alg metric a s = (Inl e, s)"
  by (simp add: Evaluate_unfold)

lemma Evaluate_trained:
  "training_call alg a s = Inr m \<Longrightarrow>
     Evaluate alg metric a s =
       (metric m (validationXs s) (validationYs s), s\<lparr>modelPtr := Some m\<rparr>)"
  by (simp add: Evaluate_unfold)

lemma Evaluate_success:
  assumes "fst (Evaluate alg metric a s) = Inr score"
  shows "\<exists>m. training_call alg a s = Inr m \<and>
    metric m (validationXs s) (validationYs s) = Inr score \<and>
    snd (Evaluate alg metric a s) = s\<lparr>modelPtr := Some m\<rparr>"
  using assms by (cases "training_call alg a s") (simp_all add: Evaluate_unfold)

lemma Evaluate_keeps_model:
  "modelPtr s \<noteq> None \<Longrightarrow> modelPtr (snd (Evaluate alg metric a s)) \<noteq> None"
  by (cases "training_call alg a s") (simp_all add: Evaluate_unfold)

lemma Evaluates_keeps_model:
  "modelPtr s \<noteq> None \<Longrightarrow> modelPtr (Evaluates cs s) \<noteq> None"
proof (induction cs arbitrary: s)
  case Nil
  then show ?case by simp
next
  case (Cons c cs)
  obtain alg metric a where c: "c = (alg, metric, a)"
    by (cases c) auto
  from Cons.prems have "modelPtr (snd (Evaluate alg metric a s)) \<noteq> None"
    by (rule Evaluate_keeps_model)
  then have "modelPtr (Evaluates cs (snd (Evaluate alg metric a s))) \<noteq> None"
    by (rule Cons.IH)
  then show ?case by (simp add: c)
qed

lemma Evaluates_all_training_fails:
  "list_all (\<lambda>c. isl (training_call (fst c) (snd (snd c)) s)) cs \<Longrightarrow> Evaluates cs s = s"
proof (induction cs)
  case Nil
  show ?case by simp
next
  case (Cons c cs)
  obtain alg metric a where c: "c = (alg, metric, a)"
    by (cases c) auto
  from Cons.prems c obtain e where "training_call alg a s = Inl e"
    by (cases "training_call alg a s") simp_all
  then have "snd (Evaluate alg metric a s) = s"
    by (simp add: Evaluate_training_fails)
  moreover from Cons have "Evaluates cs s = s" by simp
  ultimately show ?case by (simp add: c)
qed

lemma Model_holdout:
  "Model (holdout args k) =
     Inl (logic_error ''SimpleCV::Model(): attempted to access an uninitialized model'')"
  by (simp add: Model_def holdout_def)

subsection \<open>The concrete scenario, evaluated\<close>

lemma demo_construction: "SimpleCV (Finite (1 / 2)) demo_args = Inr demo_cv"
proof -
  have l: "length (points demo_args) = 4" and c: "consistent demo_args"
    by (simp_all add: demo_args_def)
  have "SimpleCV (Finite (1 / 2)) demo_args = Inr (holdout demo_args 2)"
    by (rule SimpleCV_success [OF c]) (simp_all add: l training_count_half)
  then show ?thesis
    by (simp add: holdout_def demo_args_def demo_cv_def)
qed

lemma demo_training_call:
  "training_call demo_alg a (demo_cv\<lparr>modelPtr := p\<rparr>) =
     (if a = 0 then Inl (other_exception ''training failed'')
      else Inr ([10, 11], [20, 21], [30, 31], a))"
  by (simp add: training_call_def demo_alg_def demo_cv_def demo_train_weighted_def)

lemma demo_Evaluate:
  "Evaluate demo_alg demo_metric a (demo_cv\<lparr>modelPtr := p\<rparr>) =
     (if a = 0 then (Inl (other_exception ''training failed''), demo_cv\<lparr>modelPtr := p\<rparr>)
      else (if a = 1 then Inl (other_exception ''metric failed'') else Inr (real a),
            demo_cv\<lparr>modelPtr := Some ([10, 11], [20, 21], [30, 31], a)\<rparr>))"
  by (simp add: Evaluate_unfold demo_training_call demo_metric_def)

lemma demo_cv_modelPtr: "demo_cv\<lparr>modelPtr := None\<rparr> = demo_cv"
  by (simp add: demo_cv_def)

lemma demo_Evaluate_unweighted:
  "Evaluate demo_alg_unweighted demo_metric a (demo_cv\<lparr>modelPtr := p\<rparr>) =
     (if a = 0 then (Inl (other_exception ''training failed''), demo_cv\<lparr>modelPtr := p\<rparr>)
      else (if a = 1 then Inl (other_exception ''metric failed'') else Inr (real a),
            demo_cv\<lparr>modelPtr := Some ([10, 11], [20, 21], [], a)\<rparr>))"
  by (simp add: Evaluate_unfold training_call_def demo_alg_unweighted_def demo_train_def
      demo_metric_def) (simp add: demo_cv_def)

subsection \<open>The constructor on a fraction that is a number\<close>

text \<open>
  For a validation fraction other than NaN and at most \<open>2 ^ 53\<close> points (every such
  count is a binary64 value), the checks decide the outcome: the count \<open>k\<close> exists and
  is at most \<open>N\<close>, the constructor throws \<open>invalid_argument\<close> exactly for a fraction
  outside the open interval, fewer than 2 points, \<open>k = 0\<close> or \<open>k = N\<close>, and returns the
  object otherwise.
\<close>

lemma construction_on_numbers:
  fixes args :: "('x, 'y, 'w) DataArgs"
  assumes "consistent args" and "N = length (points args)" and "N \<le> 2 ^ 53" and "v \<noteq> NaN"
  shows "(\<exists>msg. (SimpleCV v args :: exn + ('x, 'y, 'w, 'm) simple_cv) = Inl (invalid_argument msg))
      \<longleftrightarrow> (\<not> (d_less (Finite 0) v \<and> d_less v (Finite 1)) \<or> N < 2
            \<or> training_count N v = Some 0 \<or> training_count N v = Some N)"
    and "(\<exists>msg. (SimpleCV v args :: exn + ('x, 'y, 'w, 'm) simple_cv) = Inl (invalid_argument msg))
      \<or> (\<exists>k. training_count N v = Some k \<and> 1 \<le> k \<and> k < N \<and>
            SimpleCV v args = Inr (holdout args k :: ('x, 'y, 'w, 'm) simple_cv))"
proof -
  let ?r = "SimpleCV v args :: exn + ('x, 'y, 'w, 'm) simple_cv"
  let ?out = "\<not> (d_less (Finite 0) v \<and> d_less v (Finite 1)) \<or> N < 2
      \<or> training_count N v = Some 0 \<or> training_count N v = Some N"
  note c = SimpleCV_cases [OF assms(1), of v, folded assms(2)]
  have both: "((\<exists>msg. ?r = Inl (invalid_argument msg)) \<longleftrightarrow> ?out) \<and>
      ((\<exists>msg. ?r = Inl (invalid_argument msg))
        \<or> (\<exists>k. training_count N v = Some k \<and> 1 \<le> k \<and> k < N \<and> ?r = Inr (holdout args k)))"
  proof (cases "d_less v (Finite 0) \<or> d_less (Finite 1) v")
    case True
    then have "\<not> (d_less (Finite 0) v \<and> d_less v (Finite 1))"
      by (cases v) auto
    with True show ?thesis by (simp add: c)
  next
    case False
    with assms(4) obtain t where t: "v = Finite t" "0 \<le> t" "t \<le> 1"
      using checked_fraction [of v] by auto
    from training_count_le [OF t(2,3) assms(3)] obtain k where
      k: "training_count N v = Some k" "k \<le> N"
      unfolding t(1) by auto
    have z: "k = N" if "t = 0"
      using that k(1) training_count_at_0 [OF assms(3)] by (simp add: t(1))
    have o: "k = 0" if "t = 1"
      using that k(1) training_count_at_1 [OF assms(3)] by (simp add: t(1))
    have inside: "d_less (Finite 0) v \<and> d_less v (Finite 1) \<longleftrightarrow> t \<noteq> 0 \<and> t \<noteq> 1"
      using t by auto
    show ?thesis
    proof (cases "N < 2 \<or> k = 0 \<or> k = N")
      case True
      with False have "\<exists>msg. ?r = Inl (invalid_argument msg)"
        by (auto simp: c k(1))
      moreover from True have ?out
        by (auto simp: k(1))
      ultimately show ?thesis by simp
    next
      case F: False
      with k(2) have kN: "1 \<le> k" "k < N" by simp_all
      with False F have r: "?r = Inr (holdout args k)"
        by (simp add: c k(1))
      have "t \<noteq> 0" "t \<noteq> 1"
        using z o F by auto
      with F have "\<not> ?out"
        by (simp add: inside k(1))
      with r kN k(1) show ?thesis by simp
    qed
  qed
  from both show "(\<exists>msg. ?r = Inl (invalid_argument msg)) \<longleftrightarrow> ?out"
    by (rule conjunct1)
  from both show "(\<exists>msg. ?r = Inl (invalid_argument msg))
      \<or> (\<exists>k. training_count N v = Some k \<and> 1 \<le> k \<and> k < N \<and> ?r = Inr (holdout args k))"
    by (rule conjunct2)
qed

text \<open>
  Under the same two conditions every subset extraction of the constructor is in range
  once the checks have passed.
\<close>

lemma extractions_in_range_on_numbers:
  fixes s :: "('x, 'y, 'w, 'm) simple_cv"
  assumes "CalculateAndAssertNumberOfTrainingPoints v s = Inr k"
    and "n_elem (ys s) = n_cols (xs s)" and "n_cols (xs s) \<le> 2 ^ 53"
  shows "1 \<le> k" and "k \<le> n_cols (xs s) - 1"
    and "size_t_sub k 1 = k - 1" and "size_t_sub (n_cols (xs s)) 1 = n_cols (xs s) - 1"
    and "GetSubset (xs s) 0 (size_t_sub k 1) = Inr (take k (xs s))"
    and "GetSubset (ys s) 0 (size_t_sub k 1) = Inr (take k (ys s))"
    and "GetSubset (xs s) k (size_t_sub (n_cols (xs s)) 1) = Inr (drop k (xs s))"
    and "GetSubset (ys s) k (size_t_sub (n_cols (xs s)) 1) = Inr (drop k (ys s))"
    and "n_elem (weights s) = n_cols (xs s) \<Longrightarrow>
           GetSubset (weights s) 0 (size_t_sub k 1) = Inr (take k (weights s))"
proof -
  note b = Calculate_Inr_bounds [OF assms(1)]
  from b(5,6) have "v = NaN \<or> (\<exists>t. v = Finite t \<and> 0 \<le> t \<and> t \<le> 1)"
    by (rule checked_fraction)
  moreover have "v \<noteq> NaN"
    using b(1) by (auto simp: training_count_NaN)
  ultimately obtain t where t: "v = Finite t" "0 \<le> t" "t \<le> 1"
    by auto
  from training_count_le [OF t(2,3) assms(3)] b(1) have "k \<le> n_cols (xs s)"
    by (auto simp: t(1))
  with b(3) have kx: "k < n_cols (xs s)" by simp
  then have ky: "k < n_elem (ys s)" using assms(2) by simp
  show k1: "1 \<le> k" by (rule b(2))
  show "k \<le> n_cols (xs s) - 1" using kx by simp
  show "size_t_sub k 1 = k - 1" "size_t_sub (n_cols (xs s)) 1 = n_cols (xs s) - 1"
    using k1 kx by (simp_all add: size_t_sub_def)
  show "GetSubset (xs s) 0 (size_t_sub k 1) = Inr (take k (xs s))"
    by (rule GetSubset_prefix [OF k1 less_imp_le [OF kx]])
  show "GetSubset (ys s) 0 (size_t_sub k 1) = Inr (take k (ys s))"
    by (rule GetSubset_prefix [OF k1 less_imp_le [OF ky]])
  show "GetSubset (xs s) k (size_t_sub (n_cols (xs s)) 1) = Inr (drop k (xs s))"
    by (rule GetSubset_suffix [OF kx refl])
  show "GetSubset (ys s) k (size_t_sub (n_cols (xs s)) 1) = Inr (drop k (ys s))"
    by (rule GetSubset_suffix [OF kx assms(2) [symmetric]])
  show "GetSubset (weights s) 0 (size_t_sub k 1) = Inr (take k (weights s))"
    if "n_elem (weights s) = n_cols (xs s)"
  proof -
    have "k \<le> n_elem (weights s)" using kx that by simp
    with k1 show ?thesis by (rule GetSubset_prefix)
  qed
qed

section \<open>The claims\<close>



text \<open>
  C2. The constructor is to throw \<open>invalid_argument\<close> exactly when the validation fraction
  is outside the open interval \<open>(0,1)\<close>, the dataset has fewer than 2 points, or
  \<open>k = round(N * (1 - v))\<close> is 0 or \<open>N\<close>. The code does so for every fraction that is a
  number (lemma \<open>construction_on_numbers\<close>): the fractions 0 and 1 pass line 152 and are
  refused at line 161, an infinity is refused at line 152. It does not for NaN, which is
  outside the interval: both comparisons of line 152 are false, four points pass line 156,
  and line 159 converts NaN to \<open>size_t\<close>, where the behaviour is undefined. The constructor
  evaluated on four points at NaN, 0, 1 and infinity:
\<close>

theorem nan_passes_the_range_check:
  "\<not> (d_less (Finite 0) NaN \<and> d_less NaN (Finite 1)) \<and>
   \<not> d_less NaN (Finite 0) \<and> \<not> d_less (Finite 1) NaN \<and>
   training_count 4 NaN = None \<and>
   (SimpleCV NaN demo_args :: exn + (nat, nat, nat, demo_model) simple_cv)
     = Inl undefined_conversion \<and>
   (\<forall>msg. (SimpleCV NaN demo_args :: exn + (nat, nat, nat, demo_model) simple_cv)
     \<noteq> Inl (invalid_argument msg)) \<and>
   (SimpleCV (Finite 0) demo_args :: exn + (nat, nat, nat, demo_model) simple_cv)
     = Inl (invalid_argument
         ''SimpleCV: the validationSize parameter is either too small or too big'') \<and>
   (SimpleCV (Finite 1) demo_args :: exn + (nat, nat, nat, demo_model) simple_cv)
     = Inl (invalid_argument
         ''SimpleCV: the validationSize parameter is either too small or too big'') \<and>
   (SimpleCV PlusInfinity demo_args :: exn + (nat, nat, nat, demo_model) simple_cv)
     = Inl (invalid_argument
         ''SimpleCV: the validationSize parameter should be more than 0 and less than 1'')"
proof -
  have l: "length (points demo_args) = 4" and c: "consistent demo_args"
    by (simp_all add: demo_args_def)
  have n: "(4::nat) \<le> 2 ^ 53"
    by simp
  have "(SimpleCV NaN demo_args :: exn + (nat, nat, nat, demo_model) simple_cv)
      = Inl undefined_conversion"
    by (simp add: SimpleCV_cases [OF c] l training_count_NaN)
  moreover have "(SimpleCV (Finite 0) demo_args :: exn + (nat, nat, nat, demo_model) simple_cv)
      = Inl (invalid_argument
          ''SimpleCV: the validationSize parameter is either too small or too big'')"
    by (simp add: SimpleCV_cases [OF c] l training_count_at_0 [OF n])
  moreover have "(SimpleCV (Finite 1) demo_args :: exn + (nat, nat, nat, demo_model) simple_cv)
      = Inl (invalid_argument
          ''SimpleCV: the validationSize parameter is either too small or too big'')"
    by (simp add: SimpleCV_cases [OF c] l training_count_at_1 [OF n])
  moreover have "(SimpleCV PlusInfinity demo_args :: exn + (nat, nat, nat, demo_model) simple_cv)
      = Inl (invalid_argument
          ''SimpleCV: the validationSize parameter should be more than 0 and less than 1'')"
    by (simp add: SimpleCV_cases [OF c])
  ultimately show ?thesis
    by (simp add: training_count_NaN)
qed

text \<open>
  C3, as amended. For a dataset constructed with weights and a model type with weighted
  learning (the static capability that selects the overload of \<open>TrainAndEvaluate\<close>),
  every \<open>Evaluate\<close> call, after any history of earlier calls, invokes the training routine
  in its weighted form with \<open>(trainingXs, trainingYs, trainingWeights, args...)\<close>, the
  three partitions being those of the construction. The overload for such a model type
  selects the form by a test at the call, \<open>trainingWeights.n_elem > 0\<close>, on any object;
  on a constructed object the outcome of the test is fixed by the construction: it holds
  at every call on an object constructed with weights, and fails at every call on an
  object constructed without, where the unweighted form is invoked. For a model type
  without weighted learning every call invokes the unweighted form, also on a dataset
  constructed with weights.
\<close>

theorem weighted_training_dispatch:
  fixes s0 :: "('x, 'y, 'w, 'm) simple_cv" and cs :: "('x, 'y, 'w, 'a, 'm) call list"
    and alg :: "('x, 'y, 'w, 'a, 'm) MLAlgorithm"
  assumes "SimpleCV v args = Inr s0" and "s = Evaluates cs s0"
    and "training_count (n_cols (points args)) v = Some k"
  shows
    "(with_weights args \<and> SupportsWeights alg \<longrightarrow>
        n_elem (trainingWeights s) > 0 \<and>
        trainingXs s = take k (points args) \<and> trainingYs s = take k (targets args) \<and>
        trainingWeights s = take k (point_weights args) \<and>
        Evaluate alg metric a s =
          (case TrainWeighted alg (trainingXs s) (trainingYs s) (trainingWeights s) a of
             Inl e \<Rightarrow> (Inl e, s)
           | Inr m \<Rightarrow> (metric m (validationXs s) (validationYs s), s\<lparr>modelPtr := Some m\<rparr>))) \<and>
     (\<not> with_weights args \<longrightarrow>
        n_elem (trainingWeights s) = 0 \<and>
        Evaluate alg metric a s =
          (case Train alg (trainingXs s) (trainingYs s) a of
             Inl e \<Rightarrow> (Inl e, s)
           | Inr m \<Rightarrow> (metric m (validationXs s) (validationYs s), s\<lparr>modelPtr := Some m\<rparr>))) \<and>
     (\<not> SupportsWeights alg \<longrightarrow>
        Evaluate alg metric a s =
          (case Train alg (trainingXs s) (trainingYs s) a of
             Inl e \<Rightarrow> (Inl e, s)
           | Inr m \<Rightarrow> (metric m (validationXs s) (validationYs s), s\<lparr>modelPtr := Some m\<rparr>))) \<and>
     (\<forall>s' :: ('x, 'y, 'w, 'm) simple_cv. n_elem (trainingWeights s') > 0 \<longrightarrow>
        TrainAndEvaluate_weights alg metric a s' =
          (case TrainWeighted alg (trainingXs s') (trainingYs s') (trainingWeights s') a of
             Inl e \<Rightarrow> (Inl e, s')
           | Inr m \<Rightarrow>
               (metric m (validationXs s') (validationYs s'), s'\<lparr>modelPtr := Some m\<rparr>))) \<and>
     (\<forall>s' :: ('x, 'y, 'w, 'm) simple_cv. n_elem (trainingWeights s') = 0 \<longrightarrow>
        TrainAndEvaluate_weights alg metric a s' =
          (case Train alg (trainingXs s') (trainingYs s') a of
             Inl e \<Rightarrow> (Inl e, s')
           | Inr m \<Rightarrow>
               (metric m (validationXs s') (validationYs s'), s'\<lparr>modelPtr := Some m\<rparr>)))"
proof -
  note c = SimpleCV_Inr [OF assms(1)]
  have s0: "s0 = holdout args k"
    by (rule SimpleCV_Inr_count(1) [OF assms(1,3)])
  have k: "1 \<le> k" "k < length (points args)"
    by (rule SimpleCV_Inr_count(2,3) [OF assms(1,3)])+
  have f: "trainingXs s = take k (points args)" "trainingYs s = take k (targets args)"
    "trainingWeights s = take k (point_weights args)"
    unfolding assms(2) Evaluates_fields s0 by (simp_all add: holdout_def)
  have w: "n_elem (trainingWeights s) > 0" if "with_weights args"
  proof -
    from that c(1) have "length (point_weights args) = length (points args)"
      by (cases args) simp_all
    then show ?thesis using k f(3) by simp
  qed
  have nw: "trainingWeights s = []" if "\<not> with_weights args"
    using that f(3) by (cases args) simp_all
  show ?thesis
  proof (intro conjI impI allI)
    assume h: "with_weights args \<and> SupportsWeights alg"
    then show "n_elem (trainingWeights s) > 0" using w by simp
    then have "training_call alg a s =
        TrainWeighted alg (trainingXs s) (trainingYs s) (trainingWeights s) a"
      using h by (simp add: training_call_def)
    then show "Evaluate alg metric a s =
          (case TrainWeighted alg (trainingXs s) (trainingYs s) (trainingWeights s) a of
             Inl e \<Rightarrow> (Inl e, s)
           | Inr m \<Rightarrow> (metric m (validationXs s) (validationYs s), s\<lparr>modelPtr := Some m\<rparr>))"
      by (simp add: Evaluate_unfold)
  next
    assume h: "\<not> with_weights args"
    then show "n_elem (trainingWeights s) = 0" using nw by simp
    then have "training_call alg a s = Train alg (trainingXs s) (trainingYs s) a"
      by (simp add: training_call_def)
    then show "Evaluate alg metric a s =
          (case Train alg (trainingXs s) (trainingYs s) a of
             Inl e \<Rightarrow> (Inl e, s)
           | Inr m \<Rightarrow> (metric m (validationXs s) (validationYs s), s\<lparr>modelPtr := Some m\<rparr>))"
      by (simp add: Evaluate_unfold)
  next
    assume "\<not> SupportsWeights alg"
    then have "training_call alg a s = Train alg (trainingXs s) (trainingYs s) a"
      by (simp add: training_call_def)
    then show "Evaluate alg metric a s =
          (case Train alg (trainingXs s) (trainingYs s) a of
             Inl e \<Rightarrow> (Inl e, s)
           | Inr m \<Rightarrow> (metric m (validationXs s) (validationYs s), s\<lparr>modelPtr := Some m\<rparr>))"
      by (simp add: Evaluate_unfold)
  next
    fix s' :: "('x, 'y, 'w, 'm) simple_cv"
    assume "n_elem (trainingWeights s') > 0"
    then show "TrainAndEvaluate_weights alg metric a s' =
          (case TrainWeighted alg (trainingXs s') (trainingYs s') (trainingWeights s') a of
             Inl e \<Rightarrow> (Inl e, s')
           | Inr m \<Rightarrow>
               (metric m (validationXs s') (validationYs s'), s'\<lparr>modelPtr := Some m\<rparr>))"
      by (simp add: TrainAndEvaluate_weights_def Let_def split: sum.splits)
  next
    fix s' :: "('x, 'y, 'w, 'm) simple_cv"
    assume "n_elem (trainingWeights s') = 0"
    then show "TrainAndEvaluate_weights alg metric a s' =
          (case Train alg (trainingXs s') (trainingYs s') a of
             Inl e \<Rightarrow> (Inl e, s')
           | Inr m \<Rightarrow>
               (metric m (validationXs s') (validationYs s'), s'\<lparr>modelPtr := Some m\<rparr>))"
      by (simp add: TrainAndEvaluate_weights_def Let_def split: sum.splits)
  qed (rule f)+
qed


text \<open>
  The model records what it was trained on: with weights at construction it has seen the
  weights of the training points, without weights it has seen none; a model type without
  weighted learning has seen none on the dataset with weights either.
\<close>

theorem weighted_training_dispatch_witness:
  "Model (snd (Evaluate demo_alg demo_metric 3 (Evaluates [(demo_alg, demo_metric, 2)] demo_cv)))
     = Inr ([10, 11], [20, 21], [30, 31], 3) \<and>
   (\<exists>s0 :: (nat, nat, nat, demo_model) simple_cv.
      SimpleCV (to_double (3 / 10)) ten_points = Inr s0 \<and>
      Model (snd (Evaluate demo_alg demo_metric 3 s0))
        = Inr ([0, 1, 2, 3, 4, 5, 6], [100, 101, 102, 103, 104, 105, 106], [], 3)) \<and>
   Model (snd (Evaluate demo_alg_unweighted demo_metric 3 demo_cv))
     = Inr ([10, 11], [20, 21], [], 3)"
proof -
  let ?s = "Evaluates [(demo_alg, demo_metric, 2)] demo_cv"
  have l4: "n_cols (points demo_args) = 4"
    by (simp add: demo_args_def)
  have k2: "training_count (n_cols (points demo_args)) (Finite (1 / 2)) = Some 2"
    unfolding l4 by (rule training_count_half)
  have h: "with_weights demo_args \<and> SupportsWeights demo_alg"
    by (simp add: demo_args_def demo_alg_def)
  note T = weighted_training_dispatch [OF demo_construction refl k2,
      where cs = "[(demo_alg, demo_metric, 2)]" and alg = demo_alg and metric = demo_metric
        and a = 3]
  from T h have t: "trainingXs ?s = take 2 (points demo_args)"
    "trainingYs ?s = take 2 (targets demo_args)"
    "trainingWeights ?s = take 2 (point_weights demo_args)"
    and E: "Evaluate demo_alg demo_metric 3 ?s =
      (case TrainWeighted demo_alg (trainingXs ?s) (trainingYs ?s) (trainingWeights ?s) 3 of
         Inl e \<Rightarrow> (Inl e, ?s)
       | Inr m \<Rightarrow> (demo_metric m (validationXs ?s) (validationYs ?s), ?s\<lparr>modelPtr := Some m\<rparr>))"
    by blast+
  have "TrainWeighted demo_alg (trainingXs ?s) (trainingYs ?s) (trainingWeights ?s) 3
      = Inr ([10, 11], [20, 21], [30, 31], 3)"
    unfolding t by (simp add: demo_alg_def demo_train_weighted_def demo_args_def)
  with E have "snd (Evaluate demo_alg demo_metric 3 ?s)
      = ?s\<lparr>modelPtr := Some ([10, 11], [20, 21], [30, 31], 3)\<rparr>"
    by simp
  then have 1: "Model (snd (Evaluate demo_alg demo_metric 3 ?s))
      = Inr ([10, 11], [20, 21], [30, 31], 3)"
    by (simp add: Model_def)
  let ?h = "holdout ten_points 7 :: (nat, nat, nat, demo_model) simple_cv"
  have l10: "n_cols (points ten_points) = 10" and cons: "consistent ten_points"
    by (simp_all add: ten_points_def)
  have k7: "training_count (n_cols (points ten_points)) (to_double (3 / 10)) = Some 7"
    unfolding l10 by (rule training_count_three_tenths)
  have c: "SimpleCV (to_double (3 / 10)) ten_points = Inr ?h"
    by (rule SimpleCV_success [OF cons _ _ k7]) (simp_all add: l10 to_double_examples)
  have h2: "\<not> with_weights ten_points"
    by (simp add: ten_points_def)
  note T2 = weighted_training_dispatch [OF c refl k7,
      where cs = "[]" and alg = demo_alg and metric = demo_metric and a = 3]
  let ?e = "Evaluates ([] :: (nat, nat, nat, nat, demo_model) call list) ?h"
  from T2 h2 have "Evaluate demo_alg demo_metric 3 ?e =
      (case Train demo_alg (trainingXs ?e) (trainingYs ?e) 3 of
         Inl e \<Rightarrow> (Inl e, ?e)
       | Inr m \<Rightarrow> (demo_metric m (validationXs ?e) (validationYs ?e), ?e\<lparr>modelPtr := Some m\<rparr>))"
    by blast
  moreover have "Train demo_alg (trainingXs ?h) (trainingYs ?h) 3
      = Inr ([0, 1, 2, 3, 4, 5, 6], [100, 101, 102, 103, 104, 105, 106], [], 3)"
    by (simp add: demo_alg_def demo_train_def holdout_def ten_points_def)
  ultimately have "snd (Evaluate demo_alg demo_metric 3 ?h)
      = ?h\<lparr>modelPtr := Some ([0, 1, 2, 3, 4, 5, 6], [100, 101, 102, 103, 104, 105, 106], [], 3)\<rparr>"
    by simp
  then have "Model (snd (Evaluate demo_alg demo_metric 3 ?h))
      = Inr ([0, 1, 2, 3, 4, 5, 6], [100, 101, 102, 103, 104, 105, 106], [], 3)"
    by (simp add: Model_def)
  with c have 2: "\<exists>s0 :: (nat, nat, nat, demo_model) simple_cv.
      SimpleCV (to_double (3 / 10)) ten_points = Inr s0 \<and>
      Model (snd (Evaluate demo_alg demo_metric 3 s0))
        = Inr ([0, 1, 2, 3, 4, 5, 6], [100, 101, 102, 103, 104, 105, 106], [], 3)"
    by blast
  let ?e0 = "Evaluates ([] :: (nat, nat, nat, nat, demo_model) call list) demo_cv"
  note T3 = weighted_training_dispatch [OF demo_construction refl k2,
      where cs = "[]" and alg = demo_alg_unweighted and metric = demo_metric and a = 3]
  have "\<not> SupportsWeights demo_alg_unweighted"
    by (simp add: demo_alg_unweighted_def)
  with T3 have "Evaluate demo_alg_unweighted demo_metric 3 ?e0 =
      (case Train demo_alg_unweighted (trainingXs ?e0) (trainingYs ?e0) 3 of
         Inl e \<Rightarrow> (Inl e, ?e0)
       | Inr m \<Rightarrow> (demo_metric m (validationXs ?e0) (validationYs ?e0), ?e0\<lparr>modelPtr := Some m\<rparr>))"
    by blast
  moreover have "Train demo_alg_unweighted (trainingXs demo_cv) (trainingYs demo_cv) 3
      = Inr ([10, 11], [20, 21], [], 3)"
    by (simp add: demo_alg_unweighted_def demo_train_def demo_cv_def)
  ultimately have "snd (Evaluate demo_alg_unweighted demo_metric 3 demo_cv)
      = demo_cv\<lparr>modelPtr := Some ([10, 11], [20, 21], [], 3)\<rparr>"
    by simp
  then have 3: "Model (snd (Evaluate demo_alg_unweighted demo_metric 3 demo_cv))
      = Inr ([10, 11], [20, 21], [], 3)"
    by (simp add: Model_def)
  from 1 2 3 show ?thesis
    by (intro conjI)
qed

text \<open>
  C3 as stated does not hold. The dataset of four points is constructed with weights; for
  a model type without weighted learning \<open>Evaluate\<close> invokes the training routine in its
  unweighted form, and the model has seen no weights. With weighted learning the same
  call passes the training weights, and what decides there is the test of line 197 at
  the call: the overload run on the same object with its training weights emptied invokes
  the unweighted form.
\<close>

theorem weights_unused_without_weighted_learning:
  "SimpleCV (Finite (1 / 2)) demo_args = Inr demo_cv \<and>
   with_weights demo_args \<and>
   trainingWeights demo_cv = [30, 31] \<and>
   Evaluate demo_alg_unweighted demo_metric 3 demo_cv
     = (Inr 3, demo_cv\<lparr>modelPtr := Some ([10, 11], [20, 21], [], 3)\<rparr>) \<and>
   Train demo_alg_unweighted (trainingXs demo_cv) (trainingYs demo_cv) 3
     = Inr ([10, 11], [20, 21], [], 3) \<and>
   Evaluate demo_alg demo_metric 3 demo_cv
     = (Inr 3, demo_cv\<lparr>modelPtr := Some ([10, 11], [20, 21], [30, 31], 3)\<rparr>) \<and>
   TrainAndEvaluate_weights demo_alg demo_metric 3 (demo_cv\<lparr>trainingWeights := []\<rparr>)
     = (Inr 3, demo_cv\<lparr>trainingWeights := [],
                       modelPtr := Some ([10, 11], [20, 21], [], 3)\<rparr>)"
proof -
  have "with_weights demo_args"
    by (simp add: demo_args_def)
  moreover have "trainingWeights demo_cv = [30, 31]"
    by (simp add: demo_cv_def)
  moreover have "Evaluate demo_alg_unweighted demo_metric 3 demo_cv
      = (Inr 3, demo_cv\<lparr>modelPtr := Some ([10, 11], [20, 21], [], 3)\<rparr>)"
    using demo_Evaluate_unweighted [of 3 None] by (simp add: demo_cv_modelPtr)
  moreover have "Train demo_alg_unweighted (trainingXs demo_cv) (trainingYs demo_cv) 3
      = Inr ([10, 11], [20, 21], [], 3)"
    by (simp add: demo_alg_unweighted_def demo_train_def demo_cv_def)
  moreover have "Evaluate demo_alg demo_metric 3 demo_cv
      = (Inr 3, demo_cv\<lparr>modelPtr := Some ([10, 11], [20, 21], [30, 31], 3)\<rparr>)"
    using demo_Evaluate [of 3 None] by (simp add: demo_cv_modelPtr)
  moreover have "TrainAndEvaluate_weights demo_alg demo_metric 3
        (demo_cv\<lparr>trainingWeights := []\<rparr>)
      = (Inr 3, demo_cv\<lparr>trainingWeights := [],
                        modelPtr := Some ([10, 11], [20, 21], [], 3)\<rparr>)"
    by (simp add: TrainAndEvaluate_weights_def demo_alg_def demo_train_def demo_metric_def
        demo_cv_def)
  ultimately show ?thesis
    using demo_construction by (intro conjI)
qed

text \<open>
  C4, as amended. If an \<open>Evaluate\<close> call fails because the training routine throws, the
  object is left as it was: the stored model is not overwritten and \<open>Model()\<close> behaves
  as before the call. If training returns a model and the metric then throws, the call
  fails with the metric's exception and the newly trained model is the stored one. A
  failed call is one of these two.
\<close>

theorem failed_evaluate_keeps_model_unless_trained:
  "(training_call alg a s = Inl e \<longrightarrow>
      Evaluate alg metric a s = (Inl e, s) \<and>
      Model (snd (Evaluate alg metric a s)) = Model s) \<and>
   (training_call alg a s = Inr m \<and> metric m (validationXs s) (validationYs s) = Inl e \<longrightarrow>
      Evaluate alg metric a s = (Inl e, s\<lparr>modelPtr := Some m\<rparr>) \<and>
      Model (snd (Evaluate alg metric a s)) = Inr m) \<and>
   (fst (Evaluate alg metric a s) = Inl e \<longrightarrow>
      training_call alg a s = Inl e \<or>
      (\<exists>m. training_call alg a s = Inr m \<and>
         metric m (validationXs s) (validationYs s) = Inl e))"
proof (intro conjI impI)
  assume "training_call alg a s = Inl e"
  then show "Evaluate alg metric a s = (Inl e, s)"
    and "Model (snd (Evaluate alg metric a s)) = Model s"
    by (simp_all add: Evaluate_training_fails)
next
  assume "training_call alg a s = Inr m \<and> metric m (validationXs s) (validationYs s) = Inl e"
  then show "Evaluate alg metric a s = (Inl e, s\<lparr>modelPtr := Some m\<rparr>)"
    and "Model (snd (Evaluate alg metric a s)) = Inr m"
    by (simp_all add: Evaluate_trained Model_def)
next
  assume "fst (Evaluate alg metric a s) = Inl e"
  then show "training_call alg a s = Inl e \<or>
      (\<exists>m. training_call alg a s = Inr m \<and>
         metric m (validationXs s) (validationYs s) = Inl e)"
    by (cases "training_call alg a s") (simp_all add: Evaluate_unfold)
qed

text \<open>
  An object that holds the model of the extra argument 2: a call whose training fails
  keeps that model, a call whose metric fails leaves the model of the extra argument 1.
\<close>

theorem failed_evaluate_keeps_model_unless_trained_witness:
  "Evaluate demo_alg demo_metric 0 (demo_cv\<lparr>modelPtr := Some ([10, 11], [20, 21], [30, 31], 2)\<rparr>)
     = (Inl (other_exception ''training failed''),
        demo_cv\<lparr>modelPtr := Some ([10, 11], [20, 21], [30, 31], 2)\<rparr>) \<and>
   Model (snd (Evaluate demo_alg demo_metric 0
       (demo_cv\<lparr>modelPtr := Some ([10, 11], [20, 21], [30, 31], 2)\<rparr>)))
     = Inr ([10, 11], [20, 21], [30, 31], 2) \<and>
   Model (snd (Evaluate demo_alg demo_metric 1
       (demo_cv\<lparr>modelPtr := Some ([10, 11], [20, 21], [30, 31], 2)\<rparr>)))
     = Inr ([10, 11], [20, 21], [30, 31], 1)"
proof -
  let ?s = "demo_cv\<lparr>modelPtr := Some ([10, 11], [20, 21], [30, 31], 2)\<rparr>"
  have t0: "training_call demo_alg 0 ?s = Inl (other_exception ''training failed'')"
    by (simp add: demo_training_call)
  have t1: "training_call demo_alg 1 ?s = Inr ([10, 11], [20, 21], [30, 31], 1) \<and>
      demo_metric ([10, 11], [20, 21], [30, 31], 1) (validationXs ?s) (validationYs ?s)
        = Inl (other_exception ''metric failed'')"
    by (simp add: demo_training_call demo_metric_def)
  have m: "Model ?s = Inr ([10, 11], [20, 21], [30, 31], 2)"
    by (simp add: Model_def)
  from t0 failed_evaluate_keeps_model_unless_trained
    [of demo_alg 0 ?s "other_exception ''training failed''" demo_metric]
  have "Evaluate demo_alg demo_metric 0 ?s = (Inl (other_exception ''training failed''), ?s)"
    and "Model (snd (Evaluate demo_alg demo_metric 0 ?s)) = Model ?s"
    by blast+
  moreover from t1 failed_evaluate_keeps_model_unless_trained
    [of demo_alg 1 ?s "other_exception ''metric failed''" demo_metric
      "([10, 11], [20, 21], [30, 31], 1)"]
  have "Model (snd (Evaluate demo_alg demo_metric 1 ?s)) = Inr ([10, 11], [20, 21], [30, 31], 1)"
    by blast
  ultimately show ?thesis
    using m by (simp only: simp_thms)
qed

text \<open>
  C4 as stated does not hold. On the object built from four weighted points, a first call
  succeeds and stores its model; a second call trains a model and fails in the metric, and
  \<open>Model()\<close> then returns the model of the failed call, not the one of the last
  successful call.
\<close>

theorem failed_metric_replaces_model:
  "SimpleCV (Finite (1 / 2)) demo_args = Inr demo_cv \<and>
   fst (Evaluate demo_alg demo_metric 2 demo_cv) = Inr 2 \<and>
   Model (snd (Evaluate demo_alg demo_metric 2 demo_cv))
     = Inr ([10, 11], [20, 21], [30, 31], 2) \<and>
   fst (Evaluate demo_alg demo_metric 1 (snd (Evaluate demo_alg demo_metric 2 demo_cv)))
     = Inl (other_exception ''metric failed'') \<and>
   Model (snd (Evaluate demo_alg demo_metric 1 (snd (Evaluate demo_alg demo_metric 2 demo_cv))))
     = Inr ([10, 11], [20, 21], [30, 31], 1) \<and>
   Model (snd (Evaluate demo_alg demo_metric 1 (snd (Evaluate demo_alg demo_metric 2 demo_cv))))
     \<noteq> Model (snd (Evaluate demo_alg demo_metric 2 demo_cv))"
proof -
  have 1: "Evaluate demo_alg demo_metric 2 demo_cv =
      (Inr 2, demo_cv\<lparr>modelPtr := Some ([10, 11], [20, 21], [30, 31], 2)\<rparr>)"
    using demo_Evaluate [of 2 None] by (simp add: demo_cv_modelPtr)
  have 2: "Evaluate demo_alg demo_metric 1
      (demo_cv\<lparr>modelPtr := Some ([10, 11], [20, 21], [30, 31], 2)\<rparr>) =
      (Inl (other_exception ''metric failed''),
       demo_cv\<lparr>modelPtr := Some ([10, 11], [20, 21], [30, 31], 1)\<rparr>)"
    using demo_Evaluate [of 1 "Some ([10, 11], [20, 21], [30, 31], 2)"] by simp
  have m: "Model (demo_cv\<lparr>modelPtr := Some x\<rparr>) = Inr x" for x
    by (simp add: Model_def)
  have f: "fst (Evaluate demo_alg demo_metric 2 demo_cv) = Inr 2"
    "Model (snd (Evaluate demo_alg demo_metric 2 demo_cv))
      = Inr ([10, 11], [20, 21], [30, 31], 2)"
    "fst (Evaluate demo_alg demo_metric 1 (snd (Evaluate demo_alg demo_metric 2 demo_cv)))
      = Inl (other_exception ''metric failed'')"
    "Model (snd (Evaluate demo_alg demo_metric 1
        (snd (Evaluate demo_alg demo_metric 2 demo_cv))))
      = Inr ([10, 11], [20, 21], [30, 31], 1)"
    by (simp_all only: 1 2 fst_conv snd_conv m)
  have "Model (snd (Evaluate demo_alg demo_metric 1
        (snd (Evaluate demo_alg demo_metric 2 demo_cv))))
      \<noteq> Model (snd (Evaluate demo_alg demo_metric 2 demo_cv))"
    unfolding f by simp
  with f show ?thesis
    using demo_construction by (intro conjI)
qed

text \<open>
  C5, as amended. \<open>Model()\<close> called on a constructed object before any \<open>Evaluate\<close> call
  whose training step has returned a model (in particular right after construction, and
  after any number of calls that failed in training) fails with the logic error for the
  uninitialized model. After a successful \<open>Evaluate\<close> it returns exactly the instance the
  training invocation of that call produced.
\<close>

theorem model_access:
  fixes s0 :: "('x, 'y, 'w, 'm) simple_cv" and cs :: "('x, 'y, 'w, 'a, 'm) call list"
  shows
  "(SimpleCV v args = Inr s0 \<and>
    list_all (\<lambda>c. isl (training_call (fst c) (snd (snd c)) s0)) cs \<longrightarrow>
      Model (Evaluates cs s0)
        = Inl (logic_error ''SimpleCV::Model(): attempted to access an uninitialized model'')) \<and>
   (fst (Evaluate alg metric a s) = Inr score \<longrightarrow>
      (\<exists>m. training_call alg a s = Inr m \<and> Model (snd (Evaluate alg metric a s)) = Inr m))"
proof (intro conjI impI)
  assume h: "SimpleCV v args = Inr s0 \<and>
    list_all (\<lambda>c. isl (training_call (fst c) (snd (snd c)) s0)) cs"
  then have "Evaluates cs s0 = s0"
    by (intro Evaluates_all_training_fails) simp
  moreover from h obtain k where "s0 = holdout args k"
    using SimpleCV_Inr(2) [of v args s0] by auto
  ultimately show "Model (Evaluates cs s0)
      = Inl (logic_error ''SimpleCV::Model(): attempted to access an uninitialized model'')"
    using Model_holdout [of args k] by simp
next
  assume "fst (Evaluate alg metric a s) = Inr score"
  from Evaluate_success [OF this]
  show "\<exists>m. training_call alg a s = Inr m \<and> Model (snd (Evaluate alg metric a s)) = Inr m"
    by (auto simp: Model_def)
qed

text \<open>
  Two calls that fail in training leave the object without a model; a successful call
  stores the model it trained.
\<close>

theorem model_access_witness:
  "Model (Evaluates [(demo_alg, demo_metric, 0), (demo_alg, demo_metric, 0)] demo_cv)
     = Inl (logic_error ''SimpleCV::Model(): attempted to access an uninitialized model'') \<and>
   (\<exists>m. training_call demo_alg 2 demo_cv = Inr m \<and>
      Model (snd (Evaluate demo_alg demo_metric 2 demo_cv)) = Inr m)"
proof -
  have t: "training_call demo_alg a demo_cv =
      (if a = 0 then Inl (other_exception ''training failed'')
       else Inr ([10, 11], [20, 21], [30, 31], a))" for a
    using demo_training_call [of a None] by (simp add: demo_cv_modelPtr)
  have e: "Evaluate demo_alg demo_metric 2 demo_cv =
      (Inr 2, demo_cv\<lparr>modelPtr := Some ([10, 11], [20, 21], [30, 31], 2)\<rparr>)"
    using demo_Evaluate [of 2 None] by (simp add: demo_cv_modelPtr)
  have "SimpleCV (Finite (1 / 2)) demo_args = Inr demo_cv \<and>
      list_all (\<lambda>c. isl (training_call (fst c) (snd (snd c)) demo_cv))
        [(demo_alg, demo_metric, 0), (demo_alg, demo_metric, 0)]"
    by (simp add: demo_construction t)
  moreover have "fst (Evaluate demo_alg demo_metric 2 demo_cv) = Inr 2"
    by (simp only: e fst_conv)
  ultimately show ?thesis
    using model_access [of "Finite (1 / 2)" demo_args demo_cv
        "[(demo_alg, demo_metric, 0), (demo_alg, demo_metric, 0)]"
        demo_alg demo_metric 2 demo_cv 2]
    by blast
qed

text \<open>
  C5 as stated does not hold. The only \<open>Evaluate\<close> call on a fresh object trains a model
  and fails in the metric: no call has succeeded, and \<open>Model()\<close> returns the model of the
  failed call instead of throwing.
\<close>

theorem model_after_failed_first_evaluate:
  "SimpleCV (Finite (1 / 2)) demo_args = Inr demo_cv \<and>
   Model demo_cv
     = Inl (logic_error ''SimpleCV::Model(): attempted to access an uninitialized model'') \<and>
   fst (Evaluate demo_alg demo_metric 1 demo_cv) = Inl (other_exception ''metric failed'') \<and>
   Model (snd (Evaluate demo_alg demo_metric 1 demo_cv))
     = Inr ([10, 11], [20, 21], [30, 31], 1)"
proof -
  have 1: "Evaluate demo_alg demo_metric 1 demo_cv =
      (Inl (other_exception ''metric failed''),
       demo_cv\<lparr>modelPtr := Some ([10, 11], [20, 21], [30, 31], 1)\<rparr>)"
    using demo_Evaluate [of 1 None] by (simp add: demo_cv_modelPtr)
  have m: "Model (demo_cv\<lparr>modelPtr := Some x\<rparr>) = Inr x" for x
    by (simp add: Model_def)
  have "Model demo_cv
      = Inl (logic_error ''SimpleCV::Model(): attempted to access an uninitialized model'')"
    by (simp add: Model_def demo_cv_def)
  moreover have "fst (Evaluate demo_alg demo_metric 1 demo_cv)
      = Inl (other_exception ''metric failed'')"
    and "Model (snd (Evaluate demo_alg demo_metric 1 demo_cv))
      = Inr ([10, 11], [20, 21], [30, 31], 1)"
    by (simp_all only: 1 fst_conv snd_conv m)
  ultimately show ?thesis
    using demo_construction by (intro conjI)
qed

text \<open>
  C6. The object is in one of two states: without a model (\<open>modelPtr\<close> is null, \<open>Model()\<close>
  throws the logic error) or with a model (\<open>Model()\<close> returns it). In either overload,
  when the training invocation returns a model and the metric returns a score, \<open>Evaluate\<close>
  succeeds with that score and leaves the object with that model, whatever the state
  before; a successful \<open>Evaluate\<close> is always of this kind. No \<open>Evaluate\<close> call, successful
  or not, and no history of calls takes an object with a model to one without. After two
  successful calls in a row \<open>Model()\<close> returns the model trained by the second call.
\<close>

theorem model_state_machine:
  fixes s :: "('x, 'y, 'w, 'm) simple_cv" and cs :: "('x, 'y, 'w, 'a, 'm) call list"
    and alg alg_a alg_b :: "('x, 'y, 'w, 'a, 'm) MLAlgorithm"
  shows
  "(modelPtr s = None \<or> (\<exists>m. modelPtr s = Some m)) \<and>
   ((\<exists>msg. Model s = Inl (logic_error msg)) \<longleftrightarrow> modelPtr s = None) \<and>
   (Model s = Inr m \<longleftrightarrow> modelPtr s = Some m) \<and>
   (\<not> SupportsWeights alg \<and> Train alg (trainingXs s) (trainingYs s) a = Inr m \<and>
    metric m (validationXs s) (validationYs s) = Inr score \<longrightarrow>
      Evaluate alg metric a s = (Inr score, s\<lparr>modelPtr := Some m\<rparr>)) \<and>
   (SupportsWeights alg \<and> n_elem (trainingWeights s) > 0 \<and>
    TrainWeighted alg (trainingXs s) (trainingYs s) (trainingWeights s) a = Inr m \<and>
    metric m (validationXs s) (validationYs s) = Inr score \<longrightarrow>
      Evaluate alg metric a s = (Inr score, s\<lparr>modelPtr := Some m\<rparr>)) \<and>
   (SupportsWeights alg \<and> n_elem (trainingWeights s) = 0 \<and>
    Train alg (trainingXs s) (trainingYs s) a = Inr m \<and>
    metric m (validationXs s) (validationYs s) = Inr score \<longrightarrow>
      Evaluate alg metric a s = (Inr score, s\<lparr>modelPtr := Some m\<rparr>)) \<and>
   (training_call alg a s = Inr m \<and> metric m (validationXs s) (validationYs s) = Inr score
      \<longrightarrow> Evaluate alg metric a s = (Inr score, s\<lparr>modelPtr := Some m\<rparr>) \<and>
          Model (snd (Evaluate alg metric a s)) = Inr m) \<and>
   (fst (Evaluate alg metric a s) = Inr score \<longrightarrow>
      (\<exists>m'. training_call alg a s = Inr m' \<and>
         metric m' (validationXs s) (validationYs s) = Inr score \<and>
         modelPtr (snd (Evaluate alg metric a s)) = Some m')) \<and>
   (modelPtr s \<noteq> None \<longrightarrow> modelPtr (snd (Evaluate alg metric a s)) \<noteq> None) \<and>
   (modelPtr s \<noteq> None \<longrightarrow> modelPtr (Evaluates cs s) \<noteq> None) \<and>
   (fst (Evaluate alg_a metric_a arg_a s) = Inr score_a \<and>
    fst (Evaluate alg_b metric_b arg_b (snd (Evaluate alg_a metric_a arg_a s)))
      = Inr score_b \<longrightarrow>
      (\<exists>m1 m2. training_call alg_a arg_a s = Inr m1 \<and>
         training_call alg_b arg_b s = Inr m2 \<and>
         Model (snd (Evaluate alg_a metric_a arg_a s)) = Inr m1 \<and>
         Model (snd (Evaluate alg_b metric_b arg_b (snd (Evaluate alg_a metric_a arg_a s))))
           = Inr m2))"
proof (intro conjI impI)
  show "modelPtr s = None \<or> (\<exists>m. modelPtr s = Some m)"
    by (cases "modelPtr s") simp_all
  show "(\<exists>msg. Model s = Inl (logic_error msg)) \<longleftrightarrow> modelPtr s = None"
    by (cases "modelPtr s") (simp_all add: Model_def)
  show "Model s = Inr m \<longleftrightarrow> modelPtr s = Some m"
    by (cases "modelPtr s") (simp_all add: Model_def)
next
  assume "\<not> SupportsWeights alg \<and> Train alg (trainingXs s) (trainingYs s) a = Inr m \<and>
    metric m (validationXs s) (validationYs s) = Inr score"
  then show "Evaluate alg metric a s = (Inr score, s\<lparr>modelPtr := Some m\<rparr>)"
    by (simp add: Evaluate_def TrainAndEvaluate_def)
next
  assume "SupportsWeights alg \<and> n_elem (trainingWeights s) > 0 \<and>
    TrainWeighted alg (trainingXs s) (trainingYs s) (trainingWeights s) a = Inr m \<and>
    metric m (validationXs s) (validationYs s) = Inr score"
  then show "Evaluate alg metric a s = (Inr score, s\<lparr>modelPtr := Some m\<rparr>)"
    by (simp add: Evaluate_def TrainAndEvaluate_weights_def)
next
  assume "SupportsWeights alg \<and> n_elem (trainingWeights s) = 0 \<and>
    Train alg (trainingXs s) (trainingYs s) a = Inr m \<and>
    metric m (validationXs s) (validationYs s) = Inr score"
  then show "Evaluate alg metric a s = (Inr score, s\<lparr>modelPtr := Some m\<rparr>)"
    by (simp add: Evaluate_def TrainAndEvaluate_weights_def)
next
  assume "training_call alg a s = Inr m \<and> metric m (validationXs s) (validationYs s) = Inr score"
  then show "Evaluate alg metric a s = (Inr score, s\<lparr>modelPtr := Some m\<rparr>)"
    and "Model (snd (Evaluate alg metric a s)) = Inr m"
    by (simp_all add: Evaluate_trained Model_def)
next
  assume "fst (Evaluate alg metric a s) = Inr score"
  from Evaluate_success [OF this]
  show "\<exists>m'. training_call alg a s = Inr m' \<and>
      metric m' (validationXs s) (validationYs s) = Inr score \<and>
      modelPtr (snd (Evaluate alg metric a s)) = Some m'"
    by auto
next
  assume "modelPtr s \<noteq> None"
  then show "modelPtr (snd (Evaluate alg metric a s)) \<noteq> None"
    by (rule Evaluate_keeps_model)
next
  assume "modelPtr s \<noteq> None"
  then show "modelPtr (Evaluates cs s) \<noteq> None"
    by (rule Evaluates_keeps_model)
next
  let ?s1 = "snd (Evaluate alg_a metric_a arg_a s)"
  assume h: "fst (Evaluate alg_a metric_a arg_a s) = Inr score_a \<and>
    fst (Evaluate alg_b metric_b arg_b ?s1) = Inr score_b"
  from h Evaluate_success [of alg_a metric_a arg_a s score_a]
  obtain m1 where m1: "training_call alg_a arg_a s = Inr m1" "?s1 = s\<lparr>modelPtr := Some m1\<rparr>"
    by auto
  from h Evaluate_success [of alg_b metric_b arg_b ?s1 score_b]
  obtain m2 where m2: "training_call alg_b arg_b ?s1 = Inr m2"
    "snd (Evaluate alg_b metric_b arg_b ?s1) = ?s1\<lparr>modelPtr := Some m2\<rparr>"
    by auto
  have "training_call alg_b arg_b s = Inr m2"
    using m2(1) unfolding m1(2) by (simp add: training_call_modelPtr)
  moreover have "Model ?s1 = Inr m1"
    unfolding m1(2) by (simp add: Model_def)
  moreover have "Model (snd (Evaluate alg_b metric_b arg_b ?s1)) = Inr m2"
    unfolding m2(2) by (simp add: Model_def)
  ultimately show "\<exists>m1 m2. training_call alg_a arg_a s = Inr m1 \<and>
      training_call alg_b arg_b s = Inr m2 \<and>
      Model ?s1 = Inr m1 \<and> Model (snd (Evaluate alg_b metric_b arg_b ?s1)) = Inr m2"
    using m1(1) by blast
qed

text \<open>
  No model after construction, the model of the extra argument 2 after a first successful
  call, that of 3 after a second, and still a model after a call that fails in training;
  the same first step in the overload without weighted learning.
\<close>

theorem model_state_machine_witness:
  "Model demo_cv
     = Inl (logic_error ''SimpleCV::Model(): attempted to access an uninitialized model'') \<and>
   Model (snd (Evaluate demo_alg demo_metric 2 demo_cv))
     = Inr ([10, 11], [20, 21], [30, 31], 2) \<and>
   Model (snd (Evaluate demo_alg demo_metric 3 (snd (Evaluate demo_alg demo_metric 2 demo_cv))))
     = Inr ([10, 11], [20, 21], [30, 31], 3) \<and>
   modelPtr (snd (Evaluate demo_alg demo_metric 0
       (snd (Evaluate demo_alg demo_metric 2 demo_cv)))) \<noteq> None \<and>
   Evaluate demo_alg_unweighted demo_metric 2 demo_cv
     = (Inr 2, demo_cv\<lparr>modelPtr := Some ([10, 11], [20, 21], [], 2)\<rparr>) \<and>
   Evaluate demo_alg demo_metric 2 demo_cv
     = (Inr 2, demo_cv\<lparr>modelPtr := Some ([10, 11], [20, 21], [30, 31], 2)\<rparr>)"
proof -
  let ?s1 = "snd (Evaluate demo_alg demo_metric 2 demo_cv)"
  note T = model_state_machine [where s = demo_cv and alg_a = demo_alg and metric_a = demo_metric
      and arg_a = 2 and alg_b = demo_alg and metric_b = demo_metric and arg_b = 3
      and score_a = 2 and score_b = 3]
  note T1 = model_state_machine [where s = ?s1 and alg = demo_alg and metric = demo_metric
      and a = 0]
  have t: "training_call demo_alg a demo_cv =
      (if a = 0 then Inl (other_exception ''training failed'')
       else Inr ([10, 11], [20, 21], [30, 31], a))" for a
    using demo_training_call [of a None] by (simp add: demo_cv_modelPtr)
  have e1: "Evaluate demo_alg demo_metric 2 demo_cv =
      (Inr 2, demo_cv\<lparr>modelPtr := Some ([10, 11], [20, 21], [30, 31], 2)\<rparr>)"
    using demo_Evaluate [of 2 None] by (simp add: demo_cv_modelPtr)
  have e2: "fst (Evaluate demo_alg demo_metric 3 ?s1) = Inr 3"
    unfolding e1 snd_conv by (simp add: demo_Evaluate)
  have "fst (Evaluate demo_alg demo_metric 2 demo_cv) = Inr 2 \<and>
      fst (Evaluate demo_alg demo_metric 3 ?s1) = Inr 3"
    using e1 e2 by simp
  with T [THEN conjunct2, THEN conjunct2, THEN conjunct2, THEN conjunct2, THEN conjunct2, THEN conjunct2, THEN conjunct2, THEN conjunct2, THEN conjunct2, THEN conjunct2] obtain m1 m2 where "training_call demo_alg 2 demo_cv = Inr m1"
    "training_call demo_alg 3 demo_cv = Inr m2" "Model ?s1 = Inr m1"
    "Model (snd (Evaluate demo_alg demo_metric 3 ?s1)) = Inr m2"
    by blast
  then have 1: "Model ?s1 = Inr ([10, 11], [20, 21], [30, 31], 2)"
    and 2: "Model (snd (Evaluate demo_alg demo_metric 3 ?s1))
      = Inr ([10, 11], [20, 21], [30, 31], 3)"
    by (simp_all add: t)
  have "modelPtr demo_cv = None"
    by (simp add: demo_cv_def)
  with T [THEN conjunct2, THEN conjunct1] obtain msg where "Model demo_cv = Inl (logic_error msg)"
    by blast
  then have 0: "Model demo_cv
      = Inl (logic_error ''SimpleCV::Model(): attempted to access an uninitialized model'')"
    by (simp add: Model_def split: option.splits)
  have "modelPtr ?s1 \<noteq> None"
    unfolding e1 by simp
  with T1 [THEN conjunct2, THEN conjunct2, THEN conjunct2, THEN conjunct2, THEN conjunct2, THEN conjunct2, THEN conjunct2, THEN conjunct2, THEN conjunct1]
  have 3: "modelPtr (snd (Evaluate demo_alg demo_metric 0 ?s1)) \<noteq> None"
    by (rule mp)
  note TU = model_state_machine [where s = demo_cv and alg = demo_alg_unweighted
      and metric = demo_metric and a = 2 and m = "([10, 11], [20, 21], [], 2)" and score = 2]
  have "\<not> SupportsWeights demo_alg_unweighted \<and>
      Train demo_alg_unweighted (trainingXs demo_cv) (trainingYs demo_cv) 2
        = Inr ([10, 11], [20, 21], [], 2) \<and>
      demo_metric ([10, 11], [20, 21], [], 2) (validationXs demo_cv) (validationYs demo_cv)
        = Inr 2"
    by (simp add: demo_alg_unweighted_def demo_train_def demo_metric_def demo_cv_def)
  with TU [THEN conjunct2, THEN conjunct2, THEN conjunct2, THEN conjunct1]
  have 4: "Evaluate demo_alg_unweighted demo_metric 2 demo_cv
      = (Inr 2, demo_cv\<lparr>modelPtr := Some ([10, 11], [20, 21], [], 2)\<rparr>)"
    by (rule mp)
  note TW = model_state_machine [where s = demo_cv and alg = demo_alg
      and metric = demo_metric and a = 2 and m = "([10, 11], [20, 21], [30, 31], 2)"
      and score = 2]
  have "SupportsWeights demo_alg \<and> n_elem (trainingWeights demo_cv) > 0 \<and>
      TrainWeighted demo_alg (trainingXs demo_cv) (trainingYs demo_cv)
          (trainingWeights demo_cv) 2
        = Inr ([10, 11], [20, 21], [30, 31], 2) \<and>
      demo_metric ([10, 11], [20, 21], [30, 31], 2) (validationXs demo_cv)
          (validationYs demo_cv)
        = Inr 2"
    by (simp add: demo_alg_def demo_train_weighted_def demo_metric_def demo_cv_def)
  with TW [THEN conjunct2, THEN conjunct2, THEN conjunct2, THEN conjunct2, THEN conjunct1]
  have 5: "Evaluate demo_alg demo_metric 2 demo_cv
      = (Inr 2, demo_cv\<lparr>modelPtr := Some ([10, 11], [20, 21], [30, 31], 2)\<rparr>)"
    by (rule mp)
  from 0 1 2 3 4 5 show ?thesis
    by (intro conjI)
qed



text \<open>
  C8. After a successful construction with weights, the training weights are the weights
  \<open>[0, k-1]\<close> and are exactly as many as the training points. Whether or not weights
  were supplied, the metric of every \<open>Evaluate\<close> call is applied to the trained model, the
  validation points and the validation targets and to nothing else: it has no parameter
  through which weights could reach it.
\<close>

theorem training_weights_aligned:
  fixes s :: "('x, 'y, 'w, 'm) simple_cv" and cs :: "('x, 'y, 'w, 'a, 'm) call list"
    and alg :: "('x, 'y, 'w, 'a, 'm) MLAlgorithm"
  assumes "SimpleCV v args = Inr s" and "training_count (n_cols (points args)) v = Some k"
  shows
    "(with_weights args \<longrightarrow>
        n_elem (trainingWeights s) = n_cols (trainingXs s) \<and>
        n_elem (trainingWeights s) = k \<and>
        trainingWeights s = take k (point_weights args) \<and>
        (\<forall>i<k. trainingWeights s ! i = point_weights args ! i)) \<and>
     (\<not> with_weights args \<longrightarrow> trainingWeights s = []) \<and>
     validationXs (Evaluates cs s) = drop k (points args) \<and>
     validationYs (Evaluates cs s) = drop k (targets args) \<and>
     fst (Evaluate alg metric a (Evaluates cs s)) =
       (case training_call alg a s of
          Inl e \<Rightarrow> Inl e
        | Inr m \<Rightarrow> metric m (drop k (points args)) (drop k (targets args)))"
proof -
  note c = SimpleCV_Inr [OF assms(1)]
  have s: "s = holdout args k"
    by (rule SimpleCV_Inr_count(1) [OF assms])
  have k: "k < length (points args)"
    by (rule SimpleCV_Inr_count(3) [OF assms])
  have w: "length (point_weights args) = length (points args)" if "with_weights args"
    using that c(1) by (cases args) simp_all
  have 1: "with_weights args \<longrightarrow>
        n_elem (trainingWeights s) = n_cols (trainingXs s) \<and>
        n_elem (trainingWeights s) = k \<and>
        trainingWeights s = take k (point_weights args) \<and>
        (\<forall>i<k. trainingWeights s ! i = point_weights args ! i)"
    using w k by (simp add: s holdout_def)
  have 2: "\<not> with_weights args \<longrightarrow> trainingWeights s = []"
    by (cases args) (simp_all add: s holdout_def)
  have 3: "validationXs (Evaluates cs s) = drop k (points args)"
    "validationYs (Evaluates cs s) = drop k (targets args)"
    unfolding Evaluates_fields by (simp_all add: s holdout_def)
  have "fst (Evaluate alg metric a (Evaluates cs s)) =
       (case training_call alg a (Evaluates cs s) of
          Inl e \<Rightarrow> Inl e
        | Inr m \<Rightarrow> metric m (validationXs (Evaluates cs s)) (validationYs (Evaluates cs s)))"
    by (simp add: Evaluate_unfold split: sum.splits)
  then have 4: "fst (Evaluate alg metric a (Evaluates cs s)) =
       (case training_call alg a s of
          Inl e \<Rightarrow> Inl e
        | Inr m \<Rightarrow> metric m (drop k (points args)) (drop k (targets args)))"
    by (simp only: training_call_Evaluates 3)
  from 1 2 3 4 show ?thesis
    by (intro conjI)
qed

text \<open>Four weighted points: two training weights, and the metric sees the last two points.\<close>

theorem training_weights_aligned_witness:
  "n_elem (trainingWeights demo_cv) = n_cols (trainingXs demo_cv) \<and>
   trainingWeights demo_cv = [30, 31] \<and>
   fst (Evaluate demo_alg demo_metric 3 (Evaluates [(demo_alg, demo_metric, 2)] demo_cv))
     = demo_metric ([10, 11], [20, 21], [30, 31], 3) [12, 13] [22, 23]"
proof -
  have l4: "n_cols (points demo_args) = 4"
    by (simp add: demo_args_def)
  have k2: "training_count (n_cols (points demo_args)) (Finite (1 / 2)) = Some 2"
    unfolding l4 by (rule training_count_half)
  note T = training_weights_aligned [OF demo_construction k2,
      where cs = "[(demo_alg, demo_metric, 2)]" and alg = demo_alg and metric = demo_metric
        and a = 3]
  have w: "with_weights demo_args"
    by (simp add: demo_args_def)
  have t: "training_call demo_alg 3 demo_cv = Inr ([10, 11], [20, 21], [30, 31], 3)"
    using demo_training_call [of 3 None] by (simp add: demo_cv_modelPtr)
  from T w have "n_elem (trainingWeights demo_cv) = n_cols (trainingXs demo_cv)"
    and "trainingWeights demo_cv = take 2 (point_weights demo_args)"
    and "fst (Evaluate demo_alg demo_metric 3 (Evaluates [(demo_alg, demo_metric, 2)] demo_cv)) =
       (case training_call demo_alg 3 demo_cv of
          Inl e \<Rightarrow> Inl e
        | Inr m \<Rightarrow> demo_metric m (drop 2 (points demo_args)) (drop 2 (targets demo_args)))"
    by blast+
  then show ?thesis
    by (simp add: t demo_args_def)
qed

text \<open>
  C9. \<open>Evaluate\<close> returns a score (or fails), and its only effect on the object is the
  replacement of the stored model: the dataset, the training and validation partitions
  and the training weights are the same after one call and after any history of calls,
  so the split of the construction is never computed again. The score is the metric's
  value on the trained model and the validation partition.
\<close>

theorem evaluate_changes_only_the_model:
  fixes s :: "('x, 'y, 'w, 'm) simple_cv" and cs :: "('x, 'y, 'w, 'a, 'm) call list"
  shows
  "snd (Evaluate alg metric a s) = s\<lparr>modelPtr := modelPtr (snd (Evaluate alg metric a s))\<rparr> \<and>
   Evaluates cs s = s\<lparr>modelPtr := modelPtr (Evaluates cs s)\<rparr> \<and>
   xs (Evaluates cs s) = xs s \<and> ys (Evaluates cs s) = ys s \<and>
   weights (Evaluates cs s) = weights s \<and>
   trainingXs (Evaluates cs s) = trainingXs s \<and> trainingYs (Evaluates cs s) = trainingYs s \<and>
   validationXs (Evaluates cs s) = validationXs s \<and>
   validationYs (Evaluates cs s) = validationYs s \<and>
   trainingWeights (Evaluates cs s) = trainingWeights s \<and>
   fst (Evaluate alg metric a s) =
     (case training_call alg a s of
        Inl e \<Rightarrow> Inl e
      | Inr m \<Rightarrow> metric m (validationXs s) (validationYs s))"
proof -
  have "fst (Evaluate alg metric a s) =
     (case training_call alg a s of
        Inl e \<Rightarrow> Inl e
      | Inr m \<Rightarrow> metric m (validationXs s) (validationYs s))"
    by (simp add: Evaluate_unfold split: sum.splits)
  with Evaluate_frame [of alg metric a s] Evaluates_frame [of cs s] Evaluates_fields [of cs s]
  show ?thesis
    by (intro conjI)
qed

text \<open>
  Four calls (a success, a failure in the metric, a failure in training, a success) on the
  object of four weighted points change nothing but the model.
\<close>

theorem evaluate_changes_only_the_model_witness:
  "Evaluates [(demo_alg, demo_metric, 2), (demo_alg, demo_metric, 1),
      (demo_alg, demo_metric, 0), (demo_alg, demo_metric, 3)] demo_cv
     = demo_cv\<lparr>modelPtr := Some ([10, 11], [20, 21], [30, 31], 3)\<rparr> \<and>
   fst (Evaluate demo_alg demo_metric 3 demo_cv) = Inr 3"
proof -
  let ?cs = "[(demo_alg, demo_metric, 2), (demo_alg, demo_metric, 1),
      (demo_alg, demo_metric, 0), (demo_alg, demo_metric, 3)]"
  note T = evaluate_changes_only_the_model
    [where alg = demo_alg and metric = demo_metric and a = 3 and s = demo_cv and cs = ?cs]
  have e: "snd (Evaluate demo_alg demo_metric a (demo_cv\<lparr>modelPtr := p\<rparr>)) =
      demo_cv\<lparr>modelPtr := (if a = 0 then p else Some ([10, 11], [20, 21], [30, 31], a))\<rparr>"
    for a p
    by (simp add: demo_Evaluate)
  have "Evaluates ?cs (demo_cv\<lparr>modelPtr := None\<rparr>)
      = demo_cv\<lparr>modelPtr := Some ([10, 11], [20, 21], [30, 31], 3)\<rparr>"
    by (simp add: e)
  then have m: "modelPtr (Evaluates ?cs demo_cv) = Some ([10, 11], [20, 21], [30, 31], 3)"
    by (simp add: demo_cv_modelPtr)
  from T have "Evaluates ?cs demo_cv = demo_cv\<lparr>modelPtr := modelPtr (Evaluates ?cs demo_cv)\<rparr>"
    by blast
  then have 1: "Evaluates ?cs demo_cv
      = demo_cv\<lparr>modelPtr := Some ([10, 11], [20, 21], [30, 31], 3)\<rparr>"
    by (simp only: m)
  have "Evaluate demo_alg demo_metric 3 (demo_cv\<lparr>modelPtr := None\<rparr>)
      = (Inr 3, demo_cv\<lparr>modelPtr := Some ([10, 11], [20, 21], [30, 31], 3)\<rparr>)"
    by (simp add: demo_Evaluate)
  then have 2: "fst (Evaluate demo_alg demo_metric 3 demo_cv) = Inr 3"
    by (simp add: demo_cv_modelPtr)
  from 1 2 show ?thesis
    by (intro conjI)
qed

text \<open>
  C10. Every subset extraction of the constructor is to be in range, on the ground that
  the checks enforce \<open>N \<ge> 2\<close> and \<open>1 \<le> k \<le> N - 1\<close> before anything is sliced. For a
  fraction that is a number the checks do enforce it, and all five extractions are in
  range (lemma \<open>extractions_in_range_on_numbers\<close>). For NaN no check fires before line
  159, the product is NaN, and its conversion to \<open>size_t\<close> has no defined value: the count
  that lines 133 to 137 and 115 slice with is bounded by nothing. The splitter evaluated
  on four points at NaN:
\<close>

theorem nan_leaves_the_count_unchecked:
  "d_sub (Finite 1) NaN = NaN \<and>
   d_round (d_mul (size_t_to_double (n_cols (xs demo_cv))) (d_sub (Finite 1) NaN)) = NaN \<and>
   double_to_size_t NaN = None \<and>
   CalculateAndAssertNumberOfTrainingPoints NaN demo_cv = Inl undefined_conversion \<and>
   InitTrainingAndValidationSets NaN demo_cv = Inl undefined_conversion"
proof -
  have "n_cols (xs demo_cv) = 4"
    by (simp add: demo_cv_def)
  then have "CalculateAndAssertNumberOfTrainingPoints NaN demo_cv = Inl undefined_conversion"
    by (simp add: Calculate_cases training_count_NaN)
  then show ?thesis
    by (simp add: InitTrainingAndValidationSets_def)
qed

end
